theory Spec2Isabelle
  imports Complex_Main
begin

section \<open>Data model\<close>

text \<open>
  The exceptions the program can raise.  \<open>UnicodeError\<close> carries its message, as the
  \<^verbatim>\<open>raise UnicodeError("no direction specified")\<close> of the source does; the others are raised
  by the Python runtime or by the numerical libraries (an index out of range, a missing
  dictionary key, an undefined global name, a missing attribute, a shape mismatch or a
  singular matrix).
\<close>

datatype py_error =
    UnicodeError string
  | IndexError
  | KeyError
  | NameError
  | AttributeError
  | RuntimeError

text \<open>
  A two-dimensional tensor: its rows, and the number of columns (which the rows alone do
  not determine when there are none).  Its shape is \<open>(nrows t, ncols t)\<close>; Python's
  \<^verbatim>\<open>len(t)\<close> is \<open>nrows t\<close>.  Entries are modelled as real numbers.
\<close>

record 'a tensor2 =
  ncols :: nat
  rows :: "'a list list"

definition nrows :: "'a tensor2 \<Rightarrow> nat" where
  "nrows t = length (rows t)"

definition has_shape :: "'a tensor2 \<Rightarrow> nat \<Rightarrow> nat \<Rightarrow> bool" where
  "has_shape t r c = (nrows t = r \<and> ncols t = c \<and> list_all (\<lambda>row. length row = c) (rows t))"

definition well_formed :: "'a tensor2 \<Rightarrow> bool" where
  "well_formed t = list_all (\<lambda>row. length row = ncols t) (rows t)"

text \<open>
  One shell of a contracted Gaussian basis (dqc's \<^verbatim>\<open>CGTOBasis\<close>): the program reads only
  \<open>angmom\<close>.
\<close>

record shell =
  angmom :: int
  alphas :: "real list"
  coeffs :: "real list"

section \<open>Slicing\<close>

text \<open>
  Python's rule for one bound of a slice \<^verbatim>\<open>xs[a:b]\<close> over a sequence of length \<open>n\<close>: a negative
  bound counts from the end, and the result is clamped to \<open>0..n\<close>.
\<close>

definition slice_bound :: "int \<Rightarrow> nat \<Rightarrow> nat" where
  "slice_bound i n = (if i < 0 then nat (max (i + int n) 0) else min (nat i) n)"

text \<open>The upper bound; an omitted one (\<^verbatim>\<open>xs[a:]\<close>) is \<open>None\<close> and stands for the length.\<close>

definition slice_hi :: "int option \<Rightarrow> nat \<Rightarrow> nat" where
  "slice_hi b n = (case b of None \<Rightarrow> n | Some s \<Rightarrow> slice_bound s n)"

text \<open>\<^verbatim>\<open>xs[a:b]\<close>: the items from the lower bound up to the upper bound, none when they cross.\<close>

definition py_slice :: "int \<Rightarrow> int option \<Rightarrow> 'a list \<Rightarrow> 'a list" where
  "py_slice a b xs =
     (let n = length xs; lo = slice_bound a n; hi = slice_hi b n
      in take (hi - lo) (drop lo xs))"

text \<open>The number of items \<^verbatim>\<open>xs[a:b]\<close> selects from a sequence of length \<open>n\<close>.\<close>

definition slice_len :: "int \<Rightarrow> int option \<Rightarrow> nat \<Rightarrow> nat" where
  "slice_len a b n = slice_hi b n - slice_bound a n"

text \<open>\<^verbatim>\<open>t[a:b, c:d]\<close> on a two-dimensional tensor.\<close>

definition slice2 :: "'a tensor2 \<Rightarrow> int \<Rightarrow> int option \<Rightarrow> int \<Rightarrow> int option \<Rightarrow> 'a tensor2" where
  "slice2 t a b c d =
     \<lparr>ncols = slice_len c d (ncols t),
      rows = map (py_slice c d) (py_slice a b (rows t))\<rparr>"

text \<open>\<^verbatim>\<open>xs[i]\<close> for a list and a non-negative literal index.\<close>

definition getitem :: "'a list \<Rightarrow> nat \<Rightarrow> py_error + 'a" where
  "getitem xs i = (if i < length xs then Inr (xs ! i) else Inl IndexError)"

section \<open>Counting Gaussians\<close>

text \<open>
  \<^verbatim>\<open>_num_gauss\<close>: two nested loops per basis list, each adding \<open>2 * angmom + 1\<close> to a
  counter that starts at 0.  (The leading underscore of the source's names is dropped.)
\<close>

fun count_shells :: "int \<Rightarrow> shell list \<Rightarrow> int" where
  "count_shells n [] = n"
| "count_shells n (el # b) = count_shells (n + (2 * angmom el + 1)) b"

fun count_bases :: "int \<Rightarrow> shell list list \<Rightarrow> int" where
  "count_bases n [] = n"
| "count_bases n (b # bs) = count_bases (count_shells n b) bs"

definition num_gauss :: "shell list list \<Rightarrow> shell list list \<Rightarrow> int list" where
  "num_gauss basis restbasis = [count_bases 0 basis, count_bases 0 restbasis]"

section \<open>Selecting a quadrant of the cross-overlap matrix\<close>

text \<open>
  \<^verbatim>\<open>_cross_selcet\<close>.  Each branch reads the entries of \<open>num_gauss\<close> it needs, in the order
  the source evaluates them, and slices.
\<close>

definition cross_selcet :: "'a tensor2 \<Rightarrow> int list \<Rightarrow> string \<Rightarrow> py_error + 'a tensor2" where
  "cross_selcet crossmat ng direction =
     (if direction = ''S_11'' then
        (case getitem ng 0 of Inl e \<Rightarrow> Inl e
         | Inr n0 \<Rightarrow> Inr (slice2 crossmat 0 (Some n0) 0 (Some n0)))
      else if direction = ''S_12'' then
        (case getitem ng 0 of Inl e \<Rightarrow> Inl e
         | Inr n0 \<Rightarrow>
            (case getitem ng 1 of Inl e \<Rightarrow> Inl e
             | Inr n1 \<Rightarrow> Inr (slice2 crossmat n0 None 0 (Some (int (nrows crossmat) - n1)))))
      else if direction = ''S_21'' then
        (case getitem ng 0 of Inl e \<Rightarrow> Inl e
         | Inr n0 \<Rightarrow> Inr (slice2 crossmat 0 (Some n0) n0 None))
      else if direction = ''S_22'' then
        (case getitem ng 0 of Inl e \<Rightarrow> Inl e
         | Inr n0 \<Rightarrow> Inr (slice2 crossmat n0 None n0 None))
      else Inl (UnicodeError ''no direction specified''))"

section \<open>The quadrants as the specification words them\<close>

text \<open>
  ``Rows \<open>[r0, r1)\<close> crossed with columns \<open>[c0, c1)\<close>'' of a tensor, read as the specification
  writes it: the entries whose row index lies in the half-open interval \<open>[r0, r1)\<close> and whose
  column index lies in \<open>[c0, c1)\<close>, in order.  An interval whose upper end is not above its
  lower end is empty.
\<close>

definition block :: "'a tensor2 \<Rightarrow> int \<Rightarrow> int \<Rightarrow> int \<Rightarrow> int \<Rightarrow> 'a tensor2" where
  "block t r0 r1 c0 c1 =
     (let rs = filter (\<lambda>i. r0 \<le> int i \<and> int i < r1) [0..<nrows t];
          cs = filter (\<lambda>j. c0 \<le> int j \<and> int j < c1) [0..<ncols t]
      in \<lparr>ncols = length cs, rows = map (\<lambda>i. map (\<lambda>j. rows t ! i ! j) cs) rs\<rparr>)"

section \<open>Tensor operations\<close>

text \<open>\<^verbatim>\<open>t.T\<close>: the transpose.\<close>

definition tensor_T :: "'a tensor2 \<Rightarrow> 'a tensor2" where
  "tensor_T t =
     \<lparr>ncols = nrows t,
      rows = map (\<lambda>j. map (\<lambda>i. rows t ! i ! j) [0..<nrows t]) [0..<ncols t]\<rparr>"

text \<open>
  The matrix product of an \<open>n \<times> k\<close> and a \<open>k \<times> m\<close> tensor, and \<^verbatim>\<open>torch.matmul\<close>, which
  raises a runtime error when the inner dimensions differ.
\<close>

definition mat_mul :: "real tensor2 \<Rightarrow> real tensor2 \<Rightarrow> real tensor2" where
  "mat_mul A B =
     \<lparr>ncols = ncols B,
      rows = map (\<lambda>row. map (\<lambda>j. \<Sum>l\<leftarrow>[0..<ncols A]. row ! l * rows B ! l ! j) [0..<ncols B])
               (rows A)\<rparr>"

definition matmul :: "real tensor2 \<Rightarrow> real tensor2 \<Rightarrow> py_error + real tensor2" where
  "matmul A B = (if ncols A = nrows B then Inr (mat_mul A B) else Inl RuntimeError)"

text \<open>The identity matrix of dimension \<open>k\<close>.\<close>

definition eye :: "nat \<Rightarrow> real tensor2" where
  "eye k = \<lparr>ncols = k, rows = map (\<lambda>i. map (\<lambda>j. if i = j then 1 else 0) [0..<k]) [0..<k]\<rparr>"

text \<open>
  \<^verbatim>\<open>P * v\<close> for a two-dimensional \<open>P\<close> and a one-dimensional \<open>v\<close>: the product is taken
  entry by entry along each row.  Broadcasting stretches a dimension of size 1; any other
  mismatch of the number of columns with the length of \<open>v\<close> raises a runtime error.
\<close>

definition tensor_mul :: "real tensor2 \<Rightarrow> real list \<Rightarrow> py_error + real tensor2" where
  "tensor_mul P v =
     (if ncols P = length v then
        Inr \<lparr>ncols = ncols P, rows = map (\<lambda>row. map2 (*) row v) (rows P)\<rparr>
      else if length v = 1 then
        Inr \<lparr>ncols = ncols P, rows = map (\<lambda>row. map (\<lambda>x. x * v ! 0) row) (rows P)\<rparr>
      else if ncols P = 1 then
        Inr \<lparr>ncols = length v, rows = map (\<lambda>row. map (\<lambda>y. row ! 0 * y) v) (rows P)\<rparr>
      else Inl RuntimeError)"

text \<open>\<^verbatim>\<open>torch.trace\<close>: the sum of the diagonal, as far as it reaches.\<close>

definition trace :: "real tensor2 \<Rightarrow> real" where
  "trace t = (\<Sum>i\<leftarrow>[0..<min (nrows t) (ncols t)]. rows t ! i ! i)"

text \<open>
  Indexing a sequence by a boolean mask of the same length (\<^verbatim>\<open>xs[mask]\<close>) keeps the items
  whose mask entry is true; a mask of another length raises an index error.
\<close>

definition mask_select :: "'a list \<Rightarrow> bool list \<Rightarrow> py_error + 'a list" where
  "mask_select xs ms =
     (if length ms = length xs then Inr (map fst (filter snd (zip xs ms))) else Inl IndexError)"

text \<open>\<^verbatim>\<open>t[:, mask]\<close>: the columns whose mask entry is true.\<close>

definition select_columns :: "'a tensor2 \<Rightarrow> bool list \<Rightarrow> py_error + 'a tensor2" where
  "select_columns t ms =
     (if length ms = ncols t then
        Inr \<lparr>ncols = length (filter id ms),
             rows = map (\<lambda>row. map fst (filter snd (zip row ms))) (rows t)\<rparr>
      else Inl IndexError)"

text \<open>
  The quotient of two scalar tensors.  Dividing by zero does not raise: the result is an
  infinity or not a number, which the model keeps apart from the real numbers.
\<close>

datatype scalar = Finite real | NonFinite

definition tensor_div :: "real \<Rightarrow> real \<Rightarrow> scalar" where
  "tensor_div x y = (if y = 0 then NonFinite else Finite (x / y))"

section \<open>The cross-overlap matrix\<close>

text \<open>
  dqc's \<^verbatim>\<open>AtomCGTOBasis\<close>: an atomic number, the shells of the atom and its position.
\<close>

record atom_cgto_basis =
  atomz :: int
  bases :: "shell list"
  pos :: "real list"

text \<open>
  The list comprehension of \<^verbatim>\<open>_crossoverlap\<close>: one \<^verbatim>\<open>AtomCGTOBasis\<close> per index of \<open>basis\<close>,
  reading the doubled atomic numbers and positions at the same index.
\<close>

fun atombases_of :: "int list \<Rightarrow> real list list \<Rightarrow> shell list list \<Rightarrow> nat list
    \<Rightarrow> py_error + atom_cgto_basis list" where
  "atombases_of atomzs atompos basis [] = Inr []"
| "atombases_of atomzs atompos basis (i # is) =
     (case getitem atomzs i of Inl e \<Rightarrow> Inl e
      | Inr z \<Rightarrow>
         (case getitem basis i of Inl e \<Rightarrow> Inl e
          | Inr b \<Rightarrow>
             (case getitem atompos i of Inl e \<Rightarrow> Inl e
              | Inr p \<Rightarrow>
                 (case atombases_of atomzs atompos basis is of Inl e \<Rightarrow> Inl e
                  | Inr rest \<Rightarrow> Inr (\<lparr>atomz = z, bases = b, pos = p\<rparr> # rest)))))"

text \<open>
  \<^verbatim>\<open>_crossoverlap\<close>.  The structure parser (\<^verbatim>\<open>parse_moldesc\<close>) and the integral engine
  (\<^verbatim>\<open>LibcintWrapper\<close> with \<^verbatim>\<open>intor.overlap\<close>) belong to libraries; they are parameters.
\<close>

definition crossoverlap ::
  "(string \<Rightarrow> py_error + int list \<times> real list list)
    \<Rightarrow> (atom_cgto_basis list \<Rightarrow> py_error + real tensor2)
    \<Rightarrow> string \<Rightarrow> shell list list \<Rightarrow> py_error + real tensor2" where
  "crossoverlap parse_moldesc overlap atomstruc basis =
     (case parse_moldesc atomstruc of Inl e \<Rightarrow> Inl e
      | Inr (atomzs, atompos) \<Rightarrow>
         (case atombases_of (atomzs @ atomzs) (atompos @ atompos) basis [0..<length basis] of
            Inl e \<Rightarrow> Inl e
          | Inr atombases \<Rightarrow> overlap atombases))"

section \<open>The projection\<close>

text \<open>
  \<^verbatim>\<open>_maximise_overlap\<close>, statement by statement.  The dense inverse (\<^verbatim>\<open>torch.inverse\<close>) is a
  parameter: it returns the inverse or raises.
\<close>

definition maximise_overlap ::
  "(real tensor2 \<Rightarrow> py_error + real tensor2)
    \<Rightarrow> real tensor2 \<Rightarrow> real tensor2 \<Rightarrow> int list \<Rightarrow> py_error + real tensor2" where
  "maximise_overlap torch_inverse coeff colap ng =
     (case cross_selcet colap ng ''S_12'' of Inl e \<Rightarrow> Inl e
      | Inr S_12 \<Rightarrow>
     (case cross_selcet colap ng ''S_21'' of Inl e \<Rightarrow> Inl e
      | Inr S_21 \<Rightarrow>
     (case cross_selcet colap ng ''S_22'' of Inl e \<Rightarrow> Inl e
      | Inr S_22 \<Rightarrow>
     (case matmul S_12 coeff of Inl e \<Rightarrow> Inl e
      | Inr s21_c \<Rightarrow>
     (case torch_inverse S_22 of Inl e \<Rightarrow> Inl e
      | Inr S_22_inv \<Rightarrow>
     (case matmul S_22_inv s21_c of Inl e \<Rightarrow> Inl e
      | Inr s22_s21c \<Rightarrow>
     (case matmul S_21 s22_s21c of Inl e \<Rightarrow> Inl e
      | Inr s12_s22s21c \<Rightarrow> matmul (tensor_T coeff) s12_s22s21c)))))))"

text \<open>
  The projection as the specification words it: \<open>P = C\<^sup>T \<cdot> S12 \<cdot> S22\<^sup>-\<^sup>1 \<cdot> S21 \<cdot> C\<close>, in its
  order of steps: invert \<open>S22\<close>, multiply the inverse by \<open>S21 \<cdot> C\<close> from the right, multiply by
  \<open>S12\<close> from the left, sandwich with \<open>C\<^sup>T\<close>.
\<close>

definition projection_formula ::
  "(real tensor2 \<Rightarrow> py_error + real tensor2)
    \<Rightarrow> real tensor2 \<Rightarrow> real tensor2 \<Rightarrow> real tensor2 \<Rightarrow> real tensor2 \<Rightarrow> py_error + real tensor2" where
  "projection_formula torch_inverse C S12 S22 S21 =
     (case torch_inverse S22 of Inl e \<Rightarrow> Inl e
      | Inr S22_inv \<Rightarrow>
     (case matmul S21 C of Inl e \<Rightarrow> Inl e
      | Inr s21_c \<Rightarrow>
     (case matmul S22_inv s21_c of Inl e \<Rightarrow> Inl e
      | Inr s22_s21c \<Rightarrow>
     (case matmul S12 s22_s21c of Inl e \<Rightarrow> Inl e
      | Inr s12_s22s21c \<Rightarrow> matmul (tensor_T C) s12_s22s21c))))"

section \<open>The molecular system\<close>

text \<open>
  An element is named by its symbol or by its atomic number; an atom is an element with a
  position; a basis is one name for all atoms or one name per atom.
\<close>

datatype element_id = Sym string | Z int

type_synonym atom = "element_id \<times> real list"

datatype basis_spec = BasisName string | BasisList "string list"

text \<open>
  The attributes of a \<^verbatim>\<open>dft_system\<close> object.  The molecule object is pyscf's, of a type
  \<open>'m\<close> the model leaves open; it is absent when the system was built with \<^verbatim>\<open>scf = False\<close>.
\<close>

record 'm dft_system =
  basis :: basis_spec
  atomstuc :: "atom list"
  atomstuc_dqc :: string
  element_dict :: "element_id \<rightharpoonup> element_id"
  elements :: "element_id list"
  mol :: "'m option"

text \<open>
  The module-level names that functions read without receiving them as arguments; a name
  that has not been assigned is \<open>None\<close>, and reading it raises \<^verbatim>\<open>NameError\<close>.
\<close>

record 'm globals =
  atomstruc :: "atom list option"
  system :: "'m dft_system option"

text \<open>
  What a converged restricted Hartree-Fock object offers the program: the molecular-orbital
  coefficients, the occupation numbers \<^verbatim>\<open>mo_occ\<close>, and the result of \<^verbatim>\<open>get_occ()\<close>.
\<close>

record rhf =
  mo_coeff :: "real tensor2"
  mo_occ :: "real list"
  mf_get_occ :: "real list"

text \<open>
  What \<^verbatim>\<open>_create_scf_Mol\<close> sets on a fresh \<^verbatim>\<open>gto.Mole()\<close> before building it.
\<close>

record mole =
  mol_atom :: "atom list"
  mol_spin :: int
  mol_unit :: string
  mol_verbose :: int
  mol_output :: string
  mol_symmetry :: bool
  mol_basis :: basis_spec

text \<open>
  The collaborators from libraries and from Python itself.  \<^verbatim>\<open>str\<close> of the atom list and of
  an integer and pymatgen's \<^verbatim>\<open>Element.from_Z\<close> (giving the number and the symbol) return; the
  others may raise: pyscf's \<^verbatim>\<open>gto.basis.load\<close> and \<^verbatim>\<open>mol.build()\<close>, the SCF solver (\<^verbatim>\<open>scf.RHF\<close>
  followed by \<^verbatim>\<open>kernel()\<close>), dqc's \<^verbatim>\<open>loadbasis\<close> (its second argument is the keyword
  \<^verbatim>\<open>requires_grad\<close>, when given), the parameter packer (\<^verbatim>\<open>xt.Packer\<close>, with \<open>'p\<close> the type of
  packers) and its \<^verbatim>\<open>get_param_tensor\<close> and \<^verbatim>\<open>construct_from_tensor\<close>, the structure parser, the
  integral engine and the dense inverse.
\<close>

record ('p, 'm) externals =
  py_str :: "atom list \<Rightarrow> string"
  py_str_int :: "int \<Rightarrow> string"
  from_Z :: "int \<Rightarrow> int \<times> string"
  basis_load :: "basis_spec \<Rightarrow> string \<Rightarrow> py_error + unit"
  mol_build :: "mole \<Rightarrow> py_error + 'm"
  rhf_kernel :: "'m \<Rightarrow> py_error + rhf"
  loadbasis :: "string \<Rightarrow> bool option \<Rightarrow> py_error + shell list"
  Packer :: "shell list list \<Rightarrow> py_error + 'p"
  get_param_tensor :: "'p \<Rightarrow> py_error + real list"
  construct_from_tensor :: "'p \<Rightarrow> real list \<Rightarrow> py_error + shell list list"
  parse_moldesc :: "string \<Rightarrow> py_error + int list \<times> real list list"
  overlap :: "atom_cgto_basis list \<Rightarrow> py_error + real tensor2"
  torch_inverse :: "real tensor2 \<Rightarrow> py_error + real tensor2"

text \<open>
  \<^verbatim>\<open>_coeff_mat_scf\<close>: solve, then keep the columns of the coefficient matrix selected by the
  mask \<^verbatim>\<open>mo_occ > 0.\<close>
\<close>

definition coeff_mat_scf :: "('p, 'm) externals \<Rightarrow> 'm dft_system \<Rightarrow> py_error + real tensor2" where
  "coeff_mat_scf E self =
     (case mol self of None \<Rightarrow> Inl AttributeError
      | Some m \<Rightarrow>
         (case rhf_kernel E m of Inl e \<Rightarrow> Inl e
          | Inr mf \<Rightarrow> select_columns (mo_coeff mf) (map (\<lambda>x. 0 < x) (mo_occ mf))))"

text \<open>\<^verbatim>\<open>_get_occ\<close>: solve, then return the occupation vector.\<close>

definition get_occ :: "('p, 'm) externals \<Rightarrow> 'm dft_system \<Rightarrow> py_error + real list" where
  "get_occ E self =
     (case mol self of None \<Rightarrow> Inl AttributeError
      | Some m \<Rightarrow>
         (case rhf_kernel E m of Inl e \<Rightarrow> Inl e
          | Inr mf \<Rightarrow> Inr (mf_get_occ mf)))"

text \<open>
  \<^verbatim>\<open>_get_element_arr\<close>.  The list comprehension reads \<^verbatim>\<open>self.atomstuc[i][0]\<close> for every \<open>i\<close>
  below the length of the \<^emph>\<open>global\<close> \<^verbatim>\<open>atomstruc\<close>; the loop after it replaces every symbol by
  its entry of the element dictionary.
\<close>

fun first_entries :: "atom list \<Rightarrow> nat list \<Rightarrow> py_error + element_id list" where
  "first_entries atoms [] = Inr []"
| "first_entries atoms (i # is) =
     (case getitem atoms i of Inl e \<Rightarrow> Inl e
      | Inr a \<Rightarrow>
         (case first_entries atoms is of Inl e \<Rightarrow> Inl e
          | Inr rest \<Rightarrow> Inr (fst a # rest)))"

fun replace_symbols :: "(element_id \<rightharpoonup> element_id) \<Rightarrow> element_id list \<Rightarrow> py_error + element_id list" where
  "replace_symbols d [] = Inr []"
| "replace_symbols d (Sym s # xs) =
     (case d (Sym s) of None \<Rightarrow> Inl KeyError
      | Some v \<Rightarrow>
         (case replace_symbols d xs of Inl e \<Rightarrow> Inl e
          | Inr rest \<Rightarrow> Inr (v # rest)))"
| "replace_symbols d (Z n # xs) =
     (case replace_symbols d xs of Inl e \<Rightarrow> Inl e
      | Inr rest \<Rightarrow> Inr (Z n # rest))"

definition get_element_arr :: "'m globals \<Rightarrow> 'm dft_system \<Rightarrow> py_error + element_id list" where
  "get_element_arr G self =
     (case atomstruc G of None \<Rightarrow> Inl NameError
      | Some g \<Rightarrow>
         (case first_entries (atomstuc self) [0..<length g] of Inl e \<Rightarrow> Inl e
          | Inr elements_arr \<Rightarrow> replace_symbols (element_dict self) elements_arr))"

text \<open>
  Python's \<^verbatim>\<open>s.replace(old, new)\<close>: the occurrences of \<open>old\<close> are found from the left and do
  not overlap; an empty \<open>old\<close> matches before every character and at the end.
\<close>

function replace :: "string \<Rightarrow> string \<Rightarrow> string \<Rightarrow> string" where
  "replace old new s =
     (if old = [] then concat (map (\<lambda>c. new @ [c]) s) @ new
      else if s = [] then []
      else if take (length old) s = old then new @ replace old new (drop (length old) s)
      else hd s # replace old new (tl s))"
  by pat_completeness auto
termination
  by (relation "measure (\<lambda>(old, new, s). length s)") auto

text \<open>\<^verbatim>\<open>_arr_int_conv\<close>: the chain of replacements on \<^verbatim>\<open>str(self.atomstuc)\<close>.\<close>

definition arr_int_conv :: "('p, 'm) externals \<Rightarrow> 'm dft_system \<Rightarrow> string" where
  "arr_int_conv E self =
     replace ''  '' '' ''
       (replace '','' []
         (replace '' , '' '';''
           (replace [CHR 0x27] []
             (replace '']'' '' ''
               (replace ''['' '' '' (py_str E (atomstuc self)))))))"

text \<open>
  \<^verbatim>\<open>_generateElementdict\<close>: for each \<open>i\<close> of \<^verbatim>\<open>range(1, 100)\<close>, the symbol is stored under the
  number and then the number under the symbol.
\<close>

fun elementdict_loop :: "(int \<Rightarrow> int \<times> string) \<Rightarrow> (element_id \<rightharpoonup> element_id) \<Rightarrow> int list
    \<Rightarrow> (element_id \<rightharpoonup> element_id)" where
  "elementdict_loop fz elementdict [] = elementdict"
| "elementdict_loop fz elementdict (i # is) =
     elementdict_loop fz
       (elementdict (Z (fst (fz i)) \<mapsto> Sym (snd (fz i)), Sym (snd (fz i)) \<mapsto> Z (fst (fz i)))) is"

definition generateElementdict :: "('p, 'm) externals \<Rightarrow> (element_id \<rightharpoonup> element_id)" where
  "generateElementdict E = elementdict_loop (from_Z E) Map.empty [1..99]"

text \<open>
  \<^verbatim>\<open>_create_scf_Mol\<close>: set the attributes, load the basis for the printed line, build.
\<close>

definition create_scf_Mol :: "('p, 'm) externals \<Rightarrow> 'm dft_system \<Rightarrow> py_error + 'm" where
  "create_scf_Mol E self =
     (let mol0 = \<lparr>mol_atom = atomstuc self, mol_spin = 0, mol_unit = ''Bohr'', mol_verbose = 6,
                   mol_output = ''scf.out'', mol_symmetry = False, mol_basis = basis self\<rparr>
      in case basis_load E (basis self) ''Li'' of Inl e \<Rightarrow> Inl e
         | Inr u \<Rightarrow> mol_build E mol0)"

text \<open>
  The constructor \<^verbatim>\<open>dft_system(basis, atomstruc, scf)\<close>, assignment by assignment.  An
  attribute that is not assigned yet holds an empty value that no method reads.
\<close>

definition dft_system_init ::
  "('p, 'm) externals \<Rightarrow> 'm globals \<Rightarrow> basis_spec \<Rightarrow> atom list \<Rightarrow> bool
    \<Rightarrow> py_error + 'm dft_system" where
  "dft_system_init E G b atoms scf =
     (let self0 = \<lparr>basis = b, atomstuc = atoms, atomstuc_dqc = [], element_dict = Map.empty,
                    elements = [], mol = None\<rparr>;
          self1 = self0\<lparr>atomstuc_dqc := arr_int_conv E self0\<rparr>;
          self2 = self1\<lparr>element_dict := generateElementdict E\<rparr>
      in case get_element_arr G self2 of Inl e \<Rightarrow> Inl e
         | Inr els \<Rightarrow>
            (let self3 = self2\<lparr>elements := els\<rparr>
             in if scf then
                  (case create_scf_Mol E self3 of Inl e \<Rightarrow> Inl e
                   | Inr m \<Rightarrow> Inr (self3\<lparr>mol := Some m\<rparr>))
                else Inr self3))"

text \<open>
  \<^verbatim>\<open>dqc\<close>.  The name handed to \<^verbatim>\<open>dqc.loadbasis\<close> is the formatted element, a colon and the
  basis name (the \<open>i\<close>-th one when the basis is a list); \<^verbatim>\<open>requires_grad = False\<close> is passed
  unless \<open>ref\<close> is true.  The result is the dictionary's two entries, the parameters first;
  their keys are \<^verbatim>\<open>bparams_ref\<close> and \<^verbatim>\<open>bpacker_ref\<close> when \<open>ref\<close> is true, \<^verbatim>\<open>bparams\<close> and
  \<^verbatim>\<open>bpacker\<close> otherwise.
\<close>

definition format_element :: "('p, 'm) externals \<Rightarrow> element_id \<Rightarrow> string" where
  "format_element E x = (case x of Sym s \<Rightarrow> s | Z n \<Rightarrow> py_str_int E n)"

fun loadbasis_loop :: "('p, 'm) externals \<Rightarrow> 'm dft_system \<Rightarrow> bool option \<Rightarrow> nat list
    \<Rightarrow> py_error + shell list list" where
  "loadbasis_loop E self rg [] = Inr []"
| "loadbasis_loop E self rg (i # is) =
     (case getitem (elements self) i of Inl e \<Rightarrow> Inl e
      | Inr el \<Rightarrow>
     (case (case basis self of BasisName n \<Rightarrow> Inr n | BasisList ns \<Rightarrow> getitem ns i) of
        Inl e \<Rightarrow> Inl e
      | Inr n \<Rightarrow>
     (case loadbasis E (format_element E el @ '':'' @ n) rg of Inl e \<Rightarrow> Inl e
      | Inr shells \<Rightarrow>
     (case loadbasis_loop E self rg is of Inl e \<Rightarrow> Inl e
      | Inr rest \<Rightarrow> Inr (shells # rest)))))"

definition dqc :: "('p, 'm) externals \<Rightarrow> 'm dft_system \<Rightarrow> bool \<Rightarrow> py_error + real list \<times> 'p" where
  "dqc E self ref =
     (case loadbasis_loop E self (if ref then None else Some False) [0..<length (elements self)] of
        Inl e \<Rightarrow> Inl e
      | Inr bs \<Rightarrow>
     (case Packer E bs of Inl e \<Rightarrow> Inl e
      | Inr bpacker \<Rightarrow>
     (case get_param_tensor E bpacker of Inl e \<Rightarrow> Inl e
      | Inr bparams \<Rightarrow> Inr (bparams, bpacker))))"

section \<open>The objective\<close>

text \<open>
  The expression \<^verbatim>\<open>system._get_occ()\<close> inside \<^verbatim>\<open>fcn\<close>: \<^verbatim>\<open>system\<close> is not an argument of
  \<^verbatim>\<open>fcn\<close> but a module-level name.
\<close>

definition system_get_occ :: "('p, 'm) externals \<Rightarrow> 'm globals \<Rightarrow> py_error + real list" where
  "system_get_occ E G =
     (case system G of None \<Rightarrow> Inl NameError
      | Some sys \<Rightarrow> get_occ E sys)"

text \<open>
  \<^verbatim>\<open>fcn\<close>, statement by statement.  Its six arguments follow the collaborators \<open>E\<close> and the
  module-level names \<open>G\<close>.  After the projection it evaluates \<^verbatim>\<open>system._get_occ()\<close> three
  times: for the occupations, for the mask and for the sum.  Console output (\<^verbatim>\<open>print\<close>) is
  not modelled.
\<close>

definition fcn ::
  "('p, 'm) externals \<Rightarrow> 'm globals
    \<Rightarrow> real list \<Rightarrow> 'p \<Rightarrow> real list \<Rightarrow> 'p \<Rightarrow> string \<Rightarrow> real tensor2 \<Rightarrow> py_error + scalar" where
  "fcn E G bparams bpacker bparams_ref bpacker_ref atomstruc_dqc coeffM =
     (case construct_from_tensor E bpacker bparams of Inl e \<Rightarrow> Inl e
      | Inr basis' \<Rightarrow>
     (case construct_from_tensor E bpacker_ref bparams_ref of Inl e \<Rightarrow> Inl e
      | Inr ref_basis \<Rightarrow>
     (case crossoverlap (parse_moldesc E) (overlap E) atomstruc_dqc (basis' @ ref_basis) of
        Inl e \<Rightarrow> Inl e
      | Inr colap \<Rightarrow>
     (case maximise_overlap (torch_inverse E) coeffM colap (num_gauss basis' ref_basis) of
        Inl e \<Rightarrow> Inl e
      | Inr projection \<Rightarrow>
     (case system_get_occ E G of Inl e \<Rightarrow> Inl e
      | Inr occ \<Rightarrow>
     (case system_get_occ E G of Inl e \<Rightarrow> Inl e
      | Inr occ_for_mask \<Rightarrow>
     (case mask_select occ (map (\<lambda>x. 0 < x) occ_for_mask) of Inl e \<Rightarrow> Inl e
      | Inr occupied \<Rightarrow>
     (case tensor_mul projection occupied of Inl e \<Rightarrow> Inl e
      | Inr projection' \<Rightarrow>
     (case system_get_occ E G of Inl e \<Rightarrow> Inl e
      | Inr occ_for_sum \<Rightarrow>
          Inr (tensor_div (- trace projection') (sum_list occ_for_sum)))))))))))"

text \<open>
  \<^verbatim>\<open>fcn_dict\<close>: the dictionary of the six arguments of \<^verbatim>\<open>fcn\<close>, which the program passes on as
  \<^verbatim>\<open>fcn(**func_dict)\<close>.
\<close>

record 'p fcn_args =
  bparams :: "real list"
  bpacker :: 'p
  bparams_ref :: "real list"
  bpacker_ref :: 'p
  atomstruc_dqc :: string
  coeffM :: "real tensor2"

definition fcn_dict ::
  "('p, 'm) externals \<Rightarrow> 'm dft_system \<Rightarrow> 'm dft_system \<Rightarrow> py_error + 'p fcn_args" where
  "fcn_dict E self ref_system =
     (case dqc E self False of Inl e \<Rightarrow> Inl e
      | Inr (bp, pk) \<Rightarrow>
     (case dqc E ref_system True of Inl e \<Rightarrow> Inl e
      | Inr (bp_ref, pk_ref) \<Rightarrow>
     (case coeff_mat_scf E self of Inl e \<Rightarrow> Inl e
      | Inr c \<Rightarrow>
          Inr \<lparr>bparams = bp, bpacker = pk, bparams_ref = bp_ref, bpacker_ref = pk_ref,
               atomstruc_dqc = atomstuc_dqc self, coeffM = c\<rparr>)))"

text \<open>
  The strictly-positive-occupation mask of the specification, applied to the occupation
  vector: its strictly positive entries, in order.
\<close>

definition occupation_mask :: "real list \<Rightarrow> real list" where
  "occupation_mask occ = filter (\<lambda>x. 0 < x) occ"

text \<open>Column \<open>j\<close> of a tensor.\<close>

definition column :: "'a tensor2 \<Rightarrow> nat \<Rightarrow> 'a list" where
  "column t j = map (\<lambda>i. rows t ! i ! j) [0..<nrows t]"

text \<open>
  The elements whose conversion by \<^verbatim>\<open>_get_element_arr\<close> cannot fail, and the conversion: a
  number stays, a symbol becomes its entry of the dictionary.
\<close>

definition known_element :: "(element_id \<rightharpoonup> element_id) \<Rightarrow> element_id \<Rightarrow> bool" where
  "known_element d x = (case x of Sym s \<Rightarrow> d (Sym s) \<noteq> None | Z n \<Rightarrow> True)"

definition converted :: "(element_id \<rightharpoonup> element_id) \<Rightarrow> element_id \<Rightarrow> element_id" where
  "converted d x = (case x of Sym s \<Rightarrow> the (d (Sym s)) | Z n \<Rightarrow> Z n)"

section \<open>Concrete data for evaluation\<close>

text \<open>
  The inverse of a matrix of dimension 2 in closed form, raising on a singular or
  differently shaped argument: an inversion routine to evaluate the projection with.
\<close>

definition inverse2 :: "real tensor2 \<Rightarrow> py_error + real tensor2" where
  "inverse2 t =
     (case rows t of
        [[a, b], [c, d]] \<Rightarrow>
          (if a * d - b * c = 0 then Inl RuntimeError
           else Inr \<lparr>ncols = 2,
                     rows = [[d / (a * d - b * c), - b / (a * d - b * c)],
                             [- c / (a * d - b * c), a / (a * d - b * c)]]\<rparr>)
      | _ \<Rightarrow> Inl RuntimeError)"

text \<open>
  Two cross-overlap matrices of dimension 4 for two bases of two functions each.  In the
  first the reference block is the identity and the two cross blocks do not commute; in the
  second all three are the identity.
\<close>

definition colap_cross :: "real tensor2" where
  "colap_cross = \<lparr>ncols = 4, rows = [[1, 0, 0, 1], [0, 1, 0, 0], [0, 0, 1, 0], [0, 1, 0, 1]]\<rparr>"

definition colap_unit :: "real tensor2" where
  "colap_unit = \<lparr>ncols = 4, rows = [[5, 6, 1, 0], [7, 8, 0, 1], [1, 0, 1, 0], [0, 1, 0, 1]]\<rparr>"

text \<open>
  Collaborators to evaluate the model with: a table of elements that knows hydrogen and
  lithium, molecules that are numbers (the number of atoms), bases of one s shell per atom,
  packers that are the bases themselves, two atoms, the second overlap matrix, and a solver
  whose occupation vector depends on the molecule it is given.
\<close>

definition solver :: "nat \<Rightarrow> py_error + rhf" where
  "solver m =
     Inr \<lparr>mo_coeff = \<lparr>ncols = 2, rows = [[1, 0], [0, 2]]\<rparr>,
          mo_occ = [2, real m], mf_get_occ = [2, real m]\<rparr>"

definition s_shell :: shell where
  "s_shell = \<lparr>angmom = 0, alphas = [1], coeffs = [1]\<rparr>"

definition collaborators :: "(shell list list, nat) externals" where
  "collaborators =
     \<lparr>py_str = (\<lambda>atoms. ''[]''),
      py_str_int = (\<lambda>n. if n = 1 then ''1'' else if n = 3 then ''3'' else ''0''),
      from_Z = (\<lambda>i. (i, if i = 1 then ''H'' else if i = 3 then ''Li'' else ''E'')),
      basis_load = (\<lambda>b s. Inr ()),
      mol_build = (\<lambda>m. Inr (length (mol_atom m))),
      rhf_kernel = solver,
      loadbasis = (\<lambda>name rg. Inr [s_shell]),
      Packer = (\<lambda>bs. Inr bs),
      get_param_tensor = (\<lambda>p. Inr []),
      construct_from_tensor = (\<lambda>p v. Inr p),
      parse_moldesc = (\<lambda>s. Inr ([3, 3], [[1, 0, 0], [- 1, 0, 0]])),
      overlap = (\<lambda>a. Inr colap_unit),
      torch_inverse = inverse2\<rparr>"

definition system_of :: "nat \<Rightarrow> nat dft_system" where
  "system_of m =
     \<lparr>basis = BasisName ''3-21G'',
      atomstuc = [(Sym ''Li'', [1, 0, 0]), (Sym ''Li'', [- 1, 0, 0])],
      atomstuc_dqc = '' Li 1.0 0.0 0.0; Li -1.0 0.0 0.0 '',
      element_dict = [Sym ''Li'' \<mapsto> Z 3, Z 3 \<mapsto> Sym ''Li''],
      elements = [Z 3, Z 3],
      mol = Some m\<rparr>"

section \<open>Gaussian counts\<close>

lemma count_shells_sum:
  "count_shells n b = n + (\<Sum>el\<leftarrow>b. 2 * angmom el + 1)"
  by (induction b arbitrary: n) simp_all

lemma count_bases_sum:
  "count_bases n bs = n + (\<Sum>b\<leftarrow>bs. \<Sum>el\<leftarrow>b. 2 * angmom el + 1)"
  by (induction bs arbitrary: n) (simp_all add: count_shells_sum)

text \<open>
  Claim C6.  Each of the two counts returned by \<open>num_gauss\<close> is the sum, over all shells of
  all per-atom bases of the corresponding list, of \<open>2 * angmom + 1\<close>; a basis whose two shells
  have angular momenta 0 and 1 counts 4; and the counts of concatenated basis lists are the
  sums of the counts of the parts.
\<close>

theorem num_gauss_additive:
  "num_gauss bs rs =
     [\<Sum>b\<leftarrow>bs. \<Sum>el\<leftarrow>b. 2 * angmom el + 1, \<Sum>b\<leftarrow>rs. \<Sum>el\<leftarrow>b. 2 * angmom el + 1]
   \<and> num_gauss [[s\<lparr>angmom := 0\<rparr>, p\<lparr>angmom := 1\<rparr>]] [[s\<lparr>angmom := 0\<rparr>, p\<lparr>angmom := 1\<rparr>]] = [4, 4]
   \<and> num_gauss (b1 @ b2) (r1 @ r2) = map2 (+) (num_gauss b1 r1) (num_gauss b2 r2)"
  by (simp add: num_gauss_def count_bases_sum)

section \<open>Slices\<close>


lemma slice_bound_nat: "slice_bound (int k) n = min k n"
  by (simp add: slice_bound_def)

lemma slice_bound_zero: "slice_bound 0 n = 0"
  by (simp add: slice_bound_def)

lemma slice_bound_le: "slice_bound i n \<le> n"
  by (auto simp: slice_bound_def)

lemma slice_hi_le: "slice_hi b n \<le> n"
  by (simp add: slice_hi_def slice_bound_le split: option.splits)

lemma length_py_slice: "length (py_slice a b xs) = slice_len a b (length xs)"
proof -
  have "slice_hi b (length xs) \<le> length xs" by (rule slice_hi_le)
  then have "min (length xs - slice_bound a (length xs))
      (slice_hi b (length xs) - slice_bound a (length xs))
      = slice_hi b (length xs) - slice_bound a (length xs)"
    by arith
  then show ?thesis by (simp add: py_slice_def slice_len_def Let_def)
qed

lemma set_py_slice: "set (py_slice a b xs) \<subseteq> set xs"
  by (auto simp: py_slice_def Let_def dest: in_set_takeD in_set_dropD)

lemma slice2_shape:
  assumes "well_formed t"
  shows "has_shape (slice2 t a b c d) (slice_len a b (nrows t)) (slice_len c d (ncols t))"
  using assms set_py_slice[of a b "rows t"]
  by (auto simp: has_shape_def well_formed_def slice2_def nrows_def length_py_slice list_all_iff)

lemma filter_upt_range:
  "filter (\<lambda>i. lo \<le> i \<and> i < hi) [0..<n] = [min lo n..<min hi n]"
proof (induction n)
  case 0
  then show ?case by simp
next
  case (Suc n)
  show ?case
  proof (cases "lo \<le> n \<and> n < hi")
    case True
    then have "min lo (Suc n) = lo" "min hi (Suc n) = Suc n" "min lo n = lo" "min hi n = n"
      by auto
    with Suc True show ?thesis by simp
  next
    case False
    then have "min lo (Suc n) = min lo n \<and> min hi (Suc n) = min hi n \<or> min hi (Suc n) \<le> min lo (Suc n) \<and> min hi n \<le> min lo n"
      by (auto simp: min_def)
    with Suc False show ?thesis by auto
  qed
qed

lemma take_drop_nth:
  "hi \<le> length xs \<Longrightarrow> take (hi - lo) (drop lo xs) = map (\<lambda>i. xs ! i) [lo..<hi]"
proof (rule nth_equalityI)
  assume "hi \<le> length xs"
  then show "length (take (hi - lo) (drop lo xs)) = length (map (\<lambda>i. xs ! i) [lo..<hi])"
    by simp
next
  fix i
  assume "hi \<le> length xs" and "i < length (take (hi - lo) (drop lo xs))"
  then have "i < hi - lo" and "lo + i < length xs" by simp_all
  then show "take (hi - lo) (drop lo xs) ! i = map (\<lambda>i. xs ! i) [lo..<hi] ! i"
    by simp
qed

lemma py_slice_nth:
  "py_slice a b xs = map (\<lambda>i. xs ! i) [slice_bound a (length xs)..<slice_hi b (length xs)]"
  using take_drop_nth[OF slice_hi_le, of b xs "slice_bound a (length xs)"]
  by (simp add: py_slice_def Let_def)

lemma slice_len_hi: "slice_len a b n = slice_hi b n - slice_bound a n"
  by (simp add: slice_len_def)

lemma slice2_entries:
  assumes "well_formed t"
  shows "slice2 t a b c d =
     \<lparr>ncols = slice_hi d (ncols t) - slice_bound c (ncols t),
      rows = map (\<lambda>i. map (\<lambda>j. rows t ! i ! j) [slice_bound c (ncols t)..<slice_hi d (ncols t)])
               [slice_bound a (nrows t)..<slice_hi b (nrows t)]\<rparr>"
proof -
  have len: "length (rows t ! i) = ncols t" if "i < nrows t" for i
    using assms that by (simp add: well_formed_def nrows_def list_all_length)
  have "map (py_slice c d) (py_slice a b (rows t)) =
        map (\<lambda>i. py_slice c d (rows t ! i)) [slice_bound a (nrows t)..<slice_hi b (nrows t)]"
    by (simp add: py_slice_nth[of a b] nrows_def comp_def)
  also have "\<dots> = map (\<lambda>i. map (\<lambda>j. rows t ! i ! j) [slice_bound c (ncols t)..<slice_hi d (ncols t)])
               [slice_bound a (nrows t)..<slice_hi b (nrows t)]"
  proof (rule map_cong[OF refl])
    fix i assume "i \<in> set [slice_bound a (nrows t)..<slice_hi b (nrows t)]"
    then have "i < nrows t" using slice_hi_le[of b "nrows t"] by simp
    then show "py_slice c d (rows t ! i) =
        map (\<lambda>j. rows t ! i ! j) [slice_bound c (ncols t)..<slice_hi d (ncols t)]"
      by (simp add: py_slice_nth[of c d] len)
  qed
  finally show ?thesis by (simp add: slice2_def slice_len_hi)
qed

lemma block_nat:
  "block t (int r0) (int r1) (int c0) (int c1) =
     \<lparr>ncols = min c1 (ncols t) - min c0 (ncols t),
      rows = map (\<lambda>i. map (\<lambda>j. rows t ! i ! j) [min c0 (ncols t)..<min c1 (ncols t)])
               [min r0 (nrows t)..<min r1 (nrows t)]\<rparr>"
  by (simp add: block_def Let_def filter_upt_range)

text \<open>
  Claim C2, amended.  For a square cross-overlap matrix of dimension \<open>N\<close> and counts
  \<open>n_trial\<close>, \<open>n_ref\<close> with \<open>n_ref \<le> N\<close>: the quadrant selected under \<open>S_12\<close> is rows
  \<open>[n_trial, N)\<close> crossed with columns \<open>[0, N - n_ref)\<close>; it has \<open>n_trial\<close> columns exactly when
  \<open>N = n_trial + n_ref\<close>; and the quadrant selected under \<open>S_21\<close> is rows \<open>[0, n_trial)\<close>
  crossed with columns \<open>[n_trial, N)\<close>.
\<close>

theorem cross_selcet_quadrants:
  assumes "has_shape crossmat N N" and "n_ref \<le> N"
  shows "cross_selcet crossmat [int n_trial, int n_ref] ''S_12''
           = Inr (block crossmat (int n_trial) (int N) 0 (int N - int n_ref))
       \<and> (\<exists>S12. cross_selcet crossmat [int n_trial, int n_ref] ''S_12'' = Inr S12
              \<and> (ncols S12 = n_trial \<longleftrightarrow> N = n_trial + n_ref))
       \<and> cross_selcet crossmat [int n_trial, int n_ref] ''S_21''
           = Inr (block crossmat 0 (int n_trial) (int n_trial) (int N))"
proof -
  from assms(1) have wf: "well_formed crossmat" and nr: "nrows crossmat = N" and nc: "ncols crossmat = N"
    by (simp_all add: has_shape_def well_formed_def)
  have sub: "int N - int n_ref = int (N - n_ref)" using assms(2) by simp
  have s12: "cross_selcet crossmat [int n_trial, int n_ref] ''S_12''
      = Inr (slice2 crossmat (int n_trial) None 0 (Some (int (N - n_ref))))"
    by (simp add: cross_selcet_def getitem_def nr sub)
  have s21: "cross_selcet crossmat [int n_trial, int n_ref] ''S_21''
      = Inr (slice2 crossmat 0 (Some (int n_trial)) (int n_trial) None)"
    by (simp add: cross_selcet_def getitem_def)
  have b12: "slice2 crossmat (int n_trial) None 0 (Some (int (N - n_ref)))
      = block crossmat (int n_trial) (int N) 0 (int N - int n_ref)"
    unfolding sub using block_nat[of crossmat n_trial N 0 "N - n_ref"]
    by (simp add: slice2_entries[OF wf] slice_hi_def slice_bound_nat slice_bound_zero nr nc)
  have b21: "slice2 crossmat 0 (Some (int n_trial)) (int n_trial) None
      = block crossmat 0 (int n_trial) (int n_trial) (int N)"
    using block_nat[of crossmat 0 n_trial n_trial N]
    by (simp add: slice2_entries[OF wf] slice_hi_def slice_bound_nat slice_bound_zero nr nc)
  have c12: "ncols (slice2 crossmat (int n_trial) None 0 (Some (int (N - n_ref)))) = n_trial
      \<longleftrightarrow> N = n_trial + n_ref"
  proof -
    have "slice_bound (int N - int n_ref) N = N - n_ref"
      using assms(2) by (simp add: slice_bound_def)
    then show ?thesis
      using assms(2)
      by (auto simp: slice2_entries[OF wf] slice_hi_def slice_bound_zero nc)
  qed
  show ?thesis using s12 s21 b12 b21 c12 by simp
qed

theorem cross_selcet_quadrants_witness:
  "has_shape \<lparr>ncols = 2, rows = [[1, 2], [3, 4::real]]\<rparr> 2 2 \<and> (1::nat) \<le> 2
   \<and> cross_selcet \<lparr>ncols = 2, rows = [[1, 2], [3, 4::real]]\<rparr> [1, 1] ''S_12''
        = Inr \<lparr>ncols = 1, rows = [[3]]\<rparr>
   \<and> cross_selcet \<lparr>ncols = 2, rows = [[1, 2], [3, 4::real]]\<rparr> [1, 1] ''S_21''
        = Inr \<lparr>ncols = 1, rows = [[2]]\<rparr>"
proof -
  have h: "has_shape \<lparr>ncols = 2, rows = [[1, 2], [3, 4::real]]\<rparr> 2 2"
    by (simp add: has_shape_def nrows_def)
  have "block \<lparr>ncols = 2, rows = [[1, 2], [3, 4::real]]\<rparr> (int 1) (int 2) 0 (int 2 - int 1)
      = \<lparr>ncols = 1, rows = [[3]]\<rparr>"
    by (simp add: block_def nrows_def Let_def upt_rec)
  moreover have "block \<lparr>ncols = 2, rows = [[1, 2], [3, 4::real]]\<rparr> 0 (int 1) (int 1) (int 2)
      = \<lparr>ncols = 1, rows = [[2]]\<rparr>"
    by (simp add: block_def nrows_def Let_def upt_rec)
  ultimately show ?thesis
    using h cross_selcet_quadrants[OF h, of 1 1] by simp
qed

text \<open>
  Without \<open>n_ref \<le> N\<close> the claim fails.  For \<open>N = 2\<close>, \<open>n_trial = 1\<close> and \<open>n_ref = 3\<close> the upper
  column bound \<open>N - n_ref = -1\<close> is negative and the slice counts it from the end: the selection
  is column 0, which is columns \<open>[0, n_trial)\<close> although \<open>N \<noteq> n_trial + n_ref\<close>, while the
  interval \<open>[0, N - n_ref)\<close> is empty.
\<close>

theorem cross_selcet_quadrants_counterexample:
  "cross_selcet \<lparr>ncols = 2, rows = [[1, 2], [3, 4::real]]\<rparr> [int 1, int 3] ''S_12''
     = Inr (block \<lparr>ncols = 2, rows = [[1, 2], [3, 4::real]]\<rparr> (int 1) (int 2) 0 (int 1))
   \<and> cross_selcet \<lparr>ncols = 2, rows = [[1, 2], [3, 4::real]]\<rparr> [int 1, int 3] ''S_12''
     \<noteq> Inr (block \<lparr>ncols = 2, rows = [[1, 2], [3, 4::real]]\<rparr> (int 1) (int 2) 0 (int 2 - int 3))
   \<and> (2::nat) \<noteq> 1 + 3"
  by (simp add: cross_selcet_def getitem_def slice2_def slice_len_def slice_hi_def slice_bound_def
      py_slice_def block_def nrows_def Let_def upt_rec)

text \<open>
  Claim C3.  For a square matrix of dimension \<open>N = n_trial + n_ref\<close> with both counts
  positive, the four selections succeed, \<open>S_11\<close> has shape \<open>(n_trial, n_trial)\<close>, \<open>S_22\<close> has
  shape \<open>(n_ref, n_ref)\<close>, and the numbers of rows of \<open>S_12\<close> and \<open>S_21\<close> add up to \<open>N\<close>.
\<close>

theorem cross_selcet_shapes:
  assumes "has_shape crossmat N N" and "n_trial + n_ref = N" and "0 < n_trial" and "0 < n_ref"
  shows "\<exists>S11 S12 S21 S22.
           cross_selcet crossmat [int n_trial, int n_ref] ''S_11'' = Inr S11
         \<and> cross_selcet crossmat [int n_trial, int n_ref] ''S_12'' = Inr S12
         \<and> cross_selcet crossmat [int n_trial, int n_ref] ''S_21'' = Inr S21
         \<and> cross_selcet crossmat [int n_trial, int n_ref] ''S_22'' = Inr S22
         \<and> has_shape S11 n_trial n_trial \<and> has_shape S22 n_ref n_ref
         \<and> nrows S12 + nrows S21 = N"
proof -
  from assms(1) have wf: "well_formed crossmat" and nr: "nrows crossmat = N" and nc: "ncols crossmat = N"
    by (simp_all add: has_shape_def well_formed_def)
  have len: "slice_len 0 (Some (int n_trial)) N = n_trial" "slice_len (int n_trial) None N = n_ref"
    using assms(2) by (auto simp: slice_len_def slice_hi_def slice_bound_nat slice_bound_zero)
  have "has_shape (slice2 crossmat 0 (Some (int n_trial)) 0 (Some (int n_trial))) n_trial n_trial"
    using slice2_shape[OF wf, of 0 "Some (int n_trial)" 0 "Some (int n_trial)"] by (simp add: nr nc len)
  moreover have "has_shape (slice2 crossmat (int n_trial) None (int n_trial) None) n_ref n_ref"
    using slice2_shape[OF wf, of "int n_trial" None "int n_trial" None] by (simp add: nr nc len)
  moreover have "nrows (slice2 crossmat (int n_trial) None 0 (Some (int (nrows crossmat) - int n_ref))) = n_ref"
    using slice2_shape[OF wf, of "int n_trial" None 0 "Some (int (nrows crossmat) - int n_ref)"]
    by (simp add: has_shape_def nr len)
  moreover have "nrows (slice2 crossmat 0 (Some (int n_trial)) (int n_trial) None) = n_trial"
    using slice2_shape[OF wf, of 0 "Some (int n_trial)" "int n_trial" None]
    by (simp add: has_shape_def nr len)
  ultimately show ?thesis
    using assms(2) by (simp add: cross_selcet_def getitem_def)
qed

theorem cross_selcet_shapes_witness:
  "has_shape \<lparr>ncols = 2, rows = [[1, 2], [3, 4::real]]\<rparr> 2 2 \<and> (1::nat) + 1 = 2
   \<and> (0::nat) < 1
   \<and> (\<exists>S11 S12 S21 S22.
           cross_selcet \<lparr>ncols = 2, rows = [[1, 2], [3, 4::real]]\<rparr> [1, 1] ''S_11'' = Inr S11
         \<and> cross_selcet \<lparr>ncols = 2, rows = [[1, 2], [3, 4::real]]\<rparr> [1, 1] ''S_12'' = Inr S12
         \<and> cross_selcet \<lparr>ncols = 2, rows = [[1, 2], [3, 4::real]]\<rparr> [1, 1] ''S_21'' = Inr S21
         \<and> cross_selcet \<lparr>ncols = 2, rows = [[1, 2], [3, 4::real]]\<rparr> [1, 1] ''S_22'' = Inr S22
         \<and> has_shape S11 1 1 \<and> has_shape S22 1 1 \<and> nrows S12 + nrows S21 = 2)"
proof -
  have h: "has_shape \<lparr>ncols = 2, rows = [[1, 2], [3, 4::real]]\<rparr> 2 2"
    by (simp add: has_shape_def nrows_def)
  show ?thesis
    using h cross_selcet_shapes[OF h, of 1 1] by simp
qed

text \<open>
  Claim C5.  A direction that is none of \<open>S_11\<close>, \<open>S_12\<close>, \<open>S_21\<close>, \<open>S_22\<close> raises
  \<^verbatim>\<open>UnicodeError\<close> with the message ``no direction specified'', whatever the other
  arguments, so no slice is returned; each of the four names returns a slice, given a pair
  of counts.
\<close>

theorem cross_selcet_direction:
  "(direction \<notin> {''S_11'', ''S_12'', ''S_21'', ''S_22''} \<longrightarrow>
      cross_selcet crossmat ng direction = Inl (UnicodeError ''no direction specified''))
   \<and> (direction \<in> {''S_11'', ''S_12'', ''S_21'', ''S_22''} \<longrightarrow>
      (\<exists>s. cross_selcet crossmat [n_trial, n_ref] direction = Inr s))"
  by (auto simp: cross_selcet_def getitem_def)

theorem cross_selcet_direction_witness:
  "''S_99'' \<notin> {''S_11'', ''S_12'', ''S_21'', ''S_22''}
   \<and> cross_selcet \<lparr>ncols = 2, rows = [[1, 2], [3, 4::real]]\<rparr> [1, 1] ''S_99''
        = Inl (UnicodeError ''no direction specified'')
   \<and> ''S_22'' \<in> {''S_11'', ''S_12'', ''S_21'', ''S_22''}
   \<and> (\<exists>s. cross_selcet \<lparr>ncols = 2, rows = [[1, 2], [3, 4::real]]\<rparr> [1, 1] ''S_22'' = Inr s)"
  using cross_selcet_direction[of "''S_99''" "\<lparr>ncols = 2, rows = [[1, 2], [3, 4::real]]\<rparr>" "[1, 1]" 1 1]
    cross_selcet_direction[of "''S_22''" "\<lparr>ncols = 2, rows = [[1, 2], [3, 4::real]]\<rparr>" "[1, 1]" 1 1]
  by simp

section \<open>Matrix products\<close>

lemma nrows_mat_mul: "nrows (mat_mul A B) = nrows A"
  by (simp add: mat_mul_def nrows_def)

lemma ncols_tensor_T: "ncols (tensor_T t) = nrows t"
  by (simp add: tensor_T_def)

lemma sum_list_delta:
  "i < k \<Longrightarrow> (\<Sum>l\<leftarrow>[0..<k]. (if i = l then 1 else 0) * f l) = (f i :: real)"
proof -
  assume "i < k"
  have "(\<Sum>l\<leftarrow>[0..<k]. (if i = l then 1 else 0) * f l) = (\<Sum>l\<in>{0..<k}. (if i = l then 1 else 0) * f l)"
    by (simp add: sum_list_distinct_conv_sum_set)
  also have "\<dots> = (\<Sum>l\<in>{0..<k}. if l = i then f l else 0)"
    by (rule sum.cong) auto
  also have "\<dots> = f i" using \<open>i < k\<close> by simp
  finally show ?thesis .
qed

lemma tensor_rows_nth:
  assumes "has_shape X k n"
  shows "X = \<lparr>ncols = n, rows = map (\<lambda>i. map (\<lambda>j. rows X ! i ! j) [0..<n]) [0..<k]\<rparr>"
proof -
  have len: "length (rows X) = k" and nc: "ncols X = n"
    using assms by (simp_all add: has_shape_def nrows_def)
  have row: "length (rows X ! i) = n" if "i < k" for i
    using assms that len by (simp add: has_shape_def list_all_length)
  have "map (\<lambda>i. map (\<lambda>j. rows X ! i ! j) [0..<n]) [0..<k] = map (\<lambda>i. rows X ! i) [0..<k]"
    by (rule map_cong[OF refl]) (use row in \<open>auto simp: map_nth intro: nth_equalityI\<close>)
  also have "\<dots> = rows X" using len map_nth[of "rows X"] by simp
  finally show ?thesis using nc by simp
qed

lemma mat_mul_eye:
  assumes "has_shape X k n"
  shows "mat_mul (eye k) X = X"
proof -
  have "map (\<lambda>row. map (\<lambda>j. \<Sum>l\<leftarrow>[0..<k]. row ! l * rows X ! l ! j) [0..<n])
          (map (\<lambda>i. map (\<lambda>j. if i = j then 1 else 0) [0..<k]) [0..<k])
      = map (\<lambda>i. map (\<lambda>j. \<Sum>l\<leftarrow>[0..<k]. map (\<lambda>j. if i = j then 1 else 0) [0..<k] ! l * rows X ! l ! j)
               [0..<n]) [0..<k]"
    by (simp add: comp_def)
  also have "\<dots> = map (\<lambda>i. map (\<lambda>j. rows X ! i ! j) [0..<n]) [0..<k]"
  proof (rule map_cong[OF refl], rule map_cong[OF refl])
    fix i j assume "i \<in> set [0..<k]" and "j \<in> set [0..<n]"
    then have "i < k" by simp
    have "(\<Sum>l\<leftarrow>[0..<k]. map (\<lambda>j. if i = j then 1 else 0) [0..<k] ! l * rows X ! l ! j)
        = (\<Sum>l\<leftarrow>[0..<k]. (if i = l then 1 else 0) * rows X ! l ! j)"
      by (rule arg_cong[where f = sum_list], rule map_cong[OF refl]) simp
    then show "(\<Sum>l\<leftarrow>[0..<k]. map (\<lambda>j. if i = j then 1 else 0) [0..<k] ! l * rows X ! l ! j)
        = rows X ! i ! j"
      using sum_list_delta[OF \<open>i < k\<close>, of "\<lambda>l. rows X ! l ! j"] by simp
  qed
  finally have "map (\<lambda>row. map (\<lambda>j. \<Sum>l\<leftarrow>[0..<k]. row ! l * rows X ! l ! j) [0..<n])
          (map (\<lambda>i. map (\<lambda>j. if i = j then 1 else 0) [0..<k]) [0..<k])
      = map (\<lambda>i. map (\<lambda>j. rows X ! i ! j) [0..<n]) [0..<k]" .
  moreover have "ncols X = n" using assms by (simp add: has_shape_def)
  ultimately have "mat_mul (eye k) X
      = \<lparr>ncols = n, rows = map (\<lambda>i. map (\<lambda>j. rows X ! i ! j) [0..<n]) [0..<k]\<rparr>"
    by (simp add: mat_mul_def eye_def)
  then show ?thesis using tensor_rows_nth[OF assms] by simp
qed

section \<open>The projection\<close>

lemma maximise_overlap_steps:
  assumes "cross_selcet colap ng ''S_12'' = Inr S12"
    and "cross_selcet colap ng ''S_21'' = Inr S21"
    and "cross_selcet colap ng ''S_22'' = Inr S22"
  shows "maximise_overlap tinv C colap ng =
     (case matmul S12 C of Inl e \<Rightarrow> Inl e
      | Inr s21_c \<Rightarrow>
     (case tinv S22 of Inl e \<Rightarrow> Inl e
      | Inr S22i \<Rightarrow>
     (case matmul S22i s21_c of Inl e \<Rightarrow> Inl e
      | Inr s22_s21c \<Rightarrow>
     (case matmul S21 s22_s21c of Inl e \<Rightarrow> Inl e
      | Inr s12_s22s21c \<Rightarrow> matmul (tensor_T C) s12_s22s21c))))"
  using assms by (simp add: maximise_overlap_def)

text \<open>
  Claim C1, amended.  With \<open>S12\<close>, \<open>S21\<close>, \<open>S22\<close> the quadrants selected under the names
  \<open>S_12\<close>, \<open>S_21\<close>, \<open>S_22\<close>, the projection evaluator returns a matrix exactly when the
  specification's formula does with \<open>S12\<close> and \<open>S21\<close> exchanged, and then the same one:
  \<open>P = C\<^sup>T \<cdot> S21 \<cdot> S22\<^sup>-\<^sup>1 \<cdot> S12 \<cdot> C\<close>.  When the inversion succeeds and the shapes are
  compatible it returns that product.
\<close>

theorem maximise_overlap_formula:
  assumes "cross_selcet colap ng ''S_12'' = Inr S12"
    and "cross_selcet colap ng ''S_21'' = Inr S21"
    and "cross_selcet colap ng ''S_22'' = Inr S22"
  shows "(maximise_overlap tinv C colap ng = Inr P
            \<longleftrightarrow> projection_formula tinv C S21 S22 S12 = Inr P)
       \<and> (tinv S22 = Inr S22i \<and> ncols S12 = nrows C \<and> ncols S22i = nrows S12
            \<and> ncols S21 = nrows S22i \<and> nrows C = nrows S21
          \<longrightarrow> maximise_overlap tinv C colap ng
                = Inr (mat_mul (tensor_T C) (mat_mul S21 (mat_mul S22i (mat_mul S12 C)))))"
proof
  show "maximise_overlap tinv C colap ng = Inr P
            \<longleftrightarrow> projection_formula tinv C S21 S22 S12 = Inr P"
    unfolding maximise_overlap_steps[OF assms] projection_formula_def
    by (cases "matmul S12 C"; cases "tinv S22") simp_all
next
  show "tinv S22 = Inr S22i \<and> ncols S12 = nrows C \<and> ncols S22i = nrows S12
            \<and> ncols S21 = nrows S22i \<and> nrows C = nrows S21
          \<longrightarrow> maximise_overlap tinv C colap ng
                = Inr (mat_mul (tensor_T C) (mat_mul S21 (mat_mul S22i (mat_mul S12 C))))"
    unfolding maximise_overlap_steps[OF assms]
    by (simp add: matmul_def nrows_mat_mul ncols_tensor_T)
qed

lemma colap_cross_S12:
  "cross_selcet colap_cross [2, 2] ''S_12'' = Inr \<lparr>ncols = 2, rows = [[0, 0], [0, 1]]\<rparr>"
  by (simp add: cross_selcet_def getitem_def slice2_def slice_len_def slice_hi_def slice_bound_def
      py_slice_def nrows_def colap_cross_def)

lemma colap_cross_S21:
  "cross_selcet colap_cross [2, 2] ''S_21'' = Inr \<lparr>ncols = 2, rows = [[0, 1], [0, 0]]\<rparr>"
  by (simp add: cross_selcet_def getitem_def slice2_def slice_len_def slice_hi_def slice_bound_def
      py_slice_def nrows_def colap_cross_def)

lemma colap_cross_S22:
  "cross_selcet colap_cross [2, 2] ''S_22'' = Inr \<lparr>ncols = 2, rows = [[1, 0], [0, 1]]\<rparr>"
  by (simp add: cross_selcet_def getitem_def slice2_def slice_len_def slice_hi_def slice_bound_def
      py_slice_def nrows_def colap_cross_def)

lemma eye_2: "eye 2 = \<lparr>ncols = 2, rows = [[1, 0], [0, 1]]\<rparr>"
  by (simp add: eye_def upt_rec)

lemma upt_2: "[0..<2] = [0, 1]"
  by (simp add: upt_rec)

lemma maximise_overlap_colap_cross:
  "maximise_overlap inverse2 (eye 2) colap_cross [2, 2] = Inr \<lparr>ncols = 2, rows = [[0, 1], [0, 0]]\<rparr>"
  unfolding maximise_overlap_steps[OF colap_cross_S12 colap_cross_S21 colap_cross_S22]
  by (simp add: eye_2 matmul_def mat_mul_def inverse2_def tensor_T_def nrows_def upt_2)

text \<open>
  As stated, with \<open>S12\<close> on the left and \<open>S21\<close> on the right, the claim fails whenever the two
  cross blocks do not commute: here the formula gives the zero matrix and the code does not.
\<close>

theorem maximise_overlap_formula_counterexample:
  "cross_selcet colap_cross [2, 2] ''S_12'' = Inr \<lparr>ncols = 2, rows = [[0, 0], [0, 1]]\<rparr>
   \<and> cross_selcet colap_cross [2, 2] ''S_22'' = Inr \<lparr>ncols = 2, rows = [[1, 0], [0, 1]]\<rparr>
   \<and> cross_selcet colap_cross [2, 2] ''S_21'' = Inr \<lparr>ncols = 2, rows = [[0, 1], [0, 0]]\<rparr>
   \<and> projection_formula inverse2 (eye 2) \<lparr>ncols = 2, rows = [[0, 0], [0, 1]]\<rparr>
        \<lparr>ncols = 2, rows = [[1, 0], [0, 1]]\<rparr> \<lparr>ncols = 2, rows = [[0, 1], [0, 0]]\<rparr>
       = Inr \<lparr>ncols = 2, rows = [[0, 0], [0, 0]]\<rparr>
   \<and> maximise_overlap inverse2 (eye 2) colap_cross [2, 2]
       = Inr \<lparr>ncols = 2, rows = [[0, 1], [0, 0]]\<rparr>
   \<and> maximise_overlap inverse2 (eye 2) colap_cross [2, 2]
       \<noteq> projection_formula inverse2 (eye 2) \<lparr>ncols = 2, rows = [[0, 0], [0, 1]]\<rparr>
            \<lparr>ncols = 2, rows = [[1, 0], [0, 1]]\<rparr> \<lparr>ncols = 2, rows = [[0, 1], [0, 0]]\<rparr>"
proof -
  have "projection_formula inverse2 (eye 2) \<lparr>ncols = 2, rows = [[0, 0], [0, 1]]\<rparr>
        \<lparr>ncols = 2, rows = [[1, 0], [0, 1]]\<rparr> \<lparr>ncols = 2, rows = [[0, 1], [0, 0]]\<rparr>
       = Inr \<lparr>ncols = 2, rows = [[0, 0], [0, 0]]\<rparr>"
    by (simp add: projection_formula_def eye_2 matmul_def mat_mul_def inverse2_def tensor_T_def
        nrows_def upt_2)
  then show ?thesis
    using colap_cross_S12 colap_cross_S21 colap_cross_S22 maximise_overlap_colap_cross by simp
qed

theorem maximise_overlap_formula_witness:
  "cross_selcet colap_cross [2, 2] ''S_12'' = Inr \<lparr>ncols = 2, rows = [[0, 0], [0, 1]]\<rparr>
   \<and> cross_selcet colap_cross [2, 2] ''S_21'' = Inr \<lparr>ncols = 2, rows = [[0, 1], [0, 0]]\<rparr>
   \<and> cross_selcet colap_cross [2, 2] ''S_22'' = Inr \<lparr>ncols = 2, rows = [[1, 0], [0, 1]]\<rparr>
   \<and> inverse2 \<lparr>ncols = 2, rows = [[1, 0], [0, 1]]\<rparr> = Inr \<lparr>ncols = 2, rows = [[1, 0], [0, 1]]\<rparr>
   \<and> projection_formula inverse2 (eye 2) \<lparr>ncols = 2, rows = [[0, 1], [0, 0]]\<rparr>
        \<lparr>ncols = 2, rows = [[1, 0], [0, 1]]\<rparr> \<lparr>ncols = 2, rows = [[0, 0], [0, 1]]\<rparr>
       = Inr \<lparr>ncols = 2, rows = [[0, 1], [0, 0]]\<rparr>
   \<and> maximise_overlap inverse2 (eye 2) colap_cross [2, 2]
       = Inr \<lparr>ncols = 2, rows = [[0, 1], [0, 0]]\<rparr>"
proof -
  have i: "inverse2 \<lparr>ncols = 2, rows = [[1, 0], [0, 1]]\<rparr> = Inr \<lparr>ncols = 2, rows = [[1, 0], [0, 1]]\<rparr>"
    by (simp add: inverse2_def)
  have m: "mat_mul (tensor_T (eye 2)) (mat_mul \<lparr>ncols = 2, rows = [[0, 1], [0, 0]]\<rparr>
        (mat_mul \<lparr>ncols = 2, rows = [[1, 0], [0, 1]]\<rparr>
          (mat_mul \<lparr>ncols = 2, rows = [[0, 0], [0, 1]]\<rparr> (eye 2))))
      = \<lparr>ncols = 2, rows = [[0, 1], [0, 0]]\<rparr>"
    by (simp add: eye_2 mat_mul_def tensor_T_def nrows_def upt_2)
  have s: "nrows \<lparr>ncols = 2, rows = [[0, 0], [0, 1::real]]\<rparr> = 2"
    "nrows \<lparr>ncols = 2, rows = [[0, 1], [0, 0::real]]\<rparr> = 2"
    "nrows \<lparr>ncols = 2, rows = [[1, 0], [0, 1::real]]\<rparr> = 2" "nrows (eye 2) = 2"
    by (simp_all add: nrows_def eye_2)
  note T = maximise_overlap_formula[OF colap_cross_S12 colap_cross_S21 colap_cross_S22,
        of inverse2 "eye 2" "\<lparr>ncols = 2, rows = [[0, 1], [0, 0]]\<rparr>"
           "\<lparr>ncols = 2, rows = [[1, 0], [0, 1]]\<rparr>"]
  from T have r: "maximise_overlap inverse2 (eye 2) colap_cross [2, 2]
       = Inr \<lparr>ncols = 2, rows = [[0, 1], [0, 0]]\<rparr>"
    using i m s by simp
  with T have "projection_formula inverse2 (eye 2) \<lparr>ncols = 2, rows = [[0, 1], [0, 0]]\<rparr>
        \<lparr>ncols = 2, rows = [[1, 0], [0, 1]]\<rparr> \<lparr>ncols = 2, rows = [[0, 0], [0, 1]]\<rparr>
       = Inr \<lparr>ncols = 2, rows = [[0, 1], [0, 0]]\<rparr>"
    by blast
  with r show ?thesis
    using colap_cross_S12 colap_cross_S21 colap_cross_S22 i by simp
qed

text \<open>
  Claim C7.  When the quadrants selected under \<open>S_12\<close>, \<open>S_21\<close> and \<open>S_22\<close> are identity
  matrices of the dimension of \<open>C\<close>'s basis block (its number of rows), and the inversion
  returns the identity for the identity, the projection is \<open>C\<^sup>T \<cdot> C\<close>.
\<close>

theorem projection_identity:
  assumes "cross_selcet colap ng ''S_12'' = Inr (eye k)"
    and "cross_selcet colap ng ''S_21'' = Inr (eye k)"
    and "cross_selcet colap ng ''S_22'' = Inr (eye k)"
    and "tinv (eye k) = Inr (eye k)"
    and "has_shape C k n"
  shows "maximise_overlap tinv C colap ng = Inr (mat_mul (tensor_T C) C)"
proof -
  have k: "ncols (eye k) = k" "nrows (eye k) = k" "nrows C = k"
    using assms(5) by (simp_all add: eye_def nrows_def has_shape_def)
  have I: "mat_mul (eye k) C = C" by (rule mat_mul_eye[OF assms(5)])
  show ?thesis
    unfolding maximise_overlap_steps[OF assms(1-3)]
    by (simp add: matmul_def assms(4) k I ncols_tensor_T)
qed

lemma colap_unit_quadrants:
  "cross_selcet colap_unit [2, 2] ''S_12'' = Inr (eye 2)"
  "cross_selcet colap_unit [2, 2] ''S_21'' = Inr (eye 2)"
  "cross_selcet colap_unit [2, 2] ''S_22'' = Inr (eye 2)"
  by (simp_all add: cross_selcet_def getitem_def slice2_def slice_len_def slice_hi_def
      slice_bound_def py_slice_def nrows_def colap_unit_def eye_2)

theorem projection_identity_witness:
  "cross_selcet colap_unit [2, 2] ''S_12'' = Inr (eye 2)
   \<and> cross_selcet colap_unit [2, 2] ''S_21'' = Inr (eye 2)
   \<and> cross_selcet colap_unit [2, 2] ''S_22'' = Inr (eye 2)
   \<and> inverse2 (eye 2) = Inr (eye 2)
   \<and> has_shape \<lparr>ncols = 2, rows = [[1, 2], [3, 4::real]]\<rparr> 2 2
   \<and> maximise_overlap inverse2 \<lparr>ncols = 2, rows = [[1, 2], [3, 4]]\<rparr> colap_unit [2, 2]
       = Inr \<lparr>ncols = 2, rows = [[10, 14], [14, 20]]\<rparr>"
proof -
  have i: "inverse2 (eye 2) = Inr (eye 2)"
    by (simp add: inverse2_def eye_2)
  have h: "has_shape \<lparr>ncols = 2, rows = [[1, 2], [3, 4::real]]\<rparr> 2 2"
    by (simp add: has_shape_def nrows_def)
  have m: "mat_mul (tensor_T \<lparr>ncols = 2, rows = [[1, 2], [3, 4]]\<rparr>) \<lparr>ncols = 2, rows = [[1, 2], [3, 4]]\<rparr>
      = \<lparr>ncols = 2, rows = [[10, 14], [14, 20]]\<rparr>"
    by (simp add: mat_mul_def tensor_T_def nrows_def upt_2)
  show ?thesis
    using projection_identity[of colap_unit "[2, 2]" 2 inverse2 "\<lparr>ncols = 2, rows = [[1, 2], [3, 4]]\<rparr>" 2,
        OF colap_unit_quadrants i h] colap_unit_quadrants i h m
    by simp
qed

section \<open>The objective\<close>

lemma mask_select_same:
  "mask_select xs (map p xs) = Inr (filter p xs)"
proof -
  have "map fst (filter snd (zip xs (map p xs))) = filter p xs"
    by (induction xs) simp_all
  then show ?thesis by (simp add: mask_select_def)
qed

text \<open>
  Claim C4.  An evaluation of \<open>fcn\<close> returns \<open>r\<close> exactly when its steps succeed and \<open>r\<close> is
  \<open>- trace (P \<odot> occupation_mask) / sum occupation\<close>: \<open>P\<close> the projection, the mask applied to
  the occupation vector giving its strictly positive entries, the product taken entry by
  entry along each row, and the sum over the full occupation vector (a zero sum gives a
  non-finite quotient).
\<close>

theorem fcn_objective:
  "fcn E G bp pk bp_ref pk_ref moldesc cM = Inr r \<longleftrightarrow>
     (\<exists>bt br colap P occ PM.
         construct_from_tensor E pk bp = Inr bt
       \<and> construct_from_tensor E pk_ref bp_ref = Inr br
       \<and> crossoverlap (parse_moldesc E) (overlap E) moldesc (bt @ br) = Inr colap
       \<and> maximise_overlap (torch_inverse E) cM colap (num_gauss bt br) = Inr P
       \<and> system_get_occ E G = Inr occ
       \<and> tensor_mul P (occupation_mask occ) = Inr PM
       \<and> r = (if sum_list occ = 0 then NonFinite else Finite (- trace PM / sum_list occ)))"
  by (auto simp: fcn_def mask_select_same occupation_mask_def tensor_div_def
      split: sum.splits)

lemma construct_collaborators:
  "construct_from_tensor collaborators p v = Inr p"
  by (simp add: collaborators_def)

lemma crossoverlap_collaborators:
  "crossoverlap (parse_moldesc collaborators) (overlap collaborators) a
     [[s_shell], [s_shell], [s_shell], [s_shell]] = Inr colap_unit"
  by (simp add: crossoverlap_def collaborators_def getitem_def upt_rec)

lemma num_gauss_s_shells:
  "num_gauss [[s_shell], [s_shell]] [[s_shell], [s_shell]] = [2, 2]"
  by (simp add: num_gauss_def s_shell_def)

lemma projection_collaborators:
  "maximise_overlap (torch_inverse collaborators) \<lparr>ncols = 2, rows = [[1, 0], [0, 2]]\<rparr> colap_unit [2, 2]
     = Inr \<lparr>ncols = 2, rows = [[1, 0], [0, 4]]\<rparr>"
  unfolding maximise_overlap_steps[OF colap_unit_quadrants]
  by (simp add: collaborators_def eye_2 matmul_def mat_mul_def inverse2_def tensor_T_def nrows_def upt_2)

lemma system_get_occ_collaborators:
  "system_get_occ collaborators \<lparr>atomstruc = g, system = Some (system_of m)\<rparr> = Inr [2, real m]"
  by (simp add: system_get_occ_def get_occ_def system_of_def collaborators_def solver_def)

lemma fcn_collaborators:
  "0 < m \<Longrightarrow> fcn collaborators \<lparr>atomstruc = g, system = Some (system_of m)\<rparr>
      [] [[s_shell], [s_shell]] [] [[s_shell], [s_shell]] a \<lparr>ncols = 2, rows = [[1, 0], [0, 2]]\<rparr>
     = Inr (Finite (- (2 + 4 * real m) / (2 + real m)))"
  unfolding fcn_def system_get_occ_collaborators
  by (simp add: construct_collaborators crossoverlap_collaborators num_gauss_s_shells
      projection_collaborators mask_select_def tensor_mul_def trace_def nrows_def tensor_div_def upt_2)


theorem fcn_objective_witness:
  "fcn collaborators \<lparr>atomstruc = None, system = Some (system_of 2)\<rparr>
      [] [[s_shell], [s_shell]] [] [[s_shell], [s_shell]] ''Li 1 0 0; Li -1 0 0''
      \<lparr>ncols = 2, rows = [[1, 0], [0, 2]]\<rparr> = Inr (Finite (- (5 / 2)))
   \<and> (\<exists>P occ PM.
         maximise_overlap (torch_inverse collaborators) \<lparr>ncols = 2, rows = [[1, 0], [0, 2]]\<rparr>
           colap_unit [2, 2] = Inr P
       \<and> system_get_occ collaborators \<lparr>atomstruc = None, system = Some (system_of 2)\<rparr> = Inr occ
       \<and> tensor_mul P (occupation_mask occ) = Inr PM
       \<and> Finite (- (5 / 2)) = (if sum_list occ = 0 then NonFinite else Finite (- trace PM / sum_list occ)))"
proof -
  have v: "fcn collaborators \<lparr>atomstruc = None, system = Some (system_of 2)\<rparr>
      [] [[s_shell], [s_shell]] [] [[s_shell], [s_shell]] ''Li 1 0 0; Li -1 0 0''
      \<lparr>ncols = 2, rows = [[1, 0], [0, 2]]\<rparr> = Inr (Finite (- (5 / 2)))"
    using fcn_collaborators[of 2 None "''Li 1 0 0; Li -1 0 0''"] by simp
  from v[unfolded fcn_objective] v show ?thesis
    by (auto simp: construct_collaborators crossoverlap_collaborators num_gauss_s_shells)
qed

text \<open>
  Claim C9 fails as stated: \<open>fcn\<close> reads the module-level \<open>system\<close>, which is none of its
  arguments.  Two evaluations with equal arguments, in module states whose \<open>system\<close> differs,
  return different results.
\<close>

theorem fcn_pure_counterexample:
  "fcn collaborators \<lparr>atomstruc = None, system = Some (system_of 2)\<rparr>
      [] [[s_shell], [s_shell]] [] [[s_shell], [s_shell]] ''Li 1 0 0; Li -1 0 0''
      \<lparr>ncols = 2, rows = [[1, 0], [0, 2]]\<rparr>
   \<noteq> fcn collaborators \<lparr>atomstruc = None, system = Some (system_of 1)\<rparr>
      [] [[s_shell], [s_shell]] [] [[s_shell], [s_shell]] ''Li 1 0 0; Li -1 0 0''
      \<lparr>ncols = 2, rows = [[1, 0], [0, 2]]\<rparr>"
  using fcn_collaborators[of 2 None "''Li 1 0 0; Li -1 0 0''"]
    fcn_collaborators[of 1 None "''Li 1 0 0; Li -1 0 0''"]
  by simp

text \<open>
  Claim C9, amended.  The result of \<open>fcn\<close> is a function of its declared arguments and of what
  \<^verbatim>\<open>system._get_occ()\<close> evaluates to: two evaluations with equal arguments, in module states
  where that expression evaluates equally, return equal results.
\<close>

theorem fcn_function_of_arguments_and_system:
  assumes "system_get_occ E G = system_get_occ E G'"
  shows "fcn E G bp pk bp_ref pk_ref moldesc cM
       = fcn E G' bp pk bp_ref pk_ref moldesc cM"
  unfolding fcn_def assms by (rule refl)

theorem fcn_function_of_arguments_and_system_witness:
  "system_get_occ collaborators \<lparr>atomstruc = None, system = Some (system_of 2)\<rparr>
     = system_get_occ collaborators
         \<lparr>atomstruc = Some [(Z 3, [0, 0, 0])], system = Some ((system_of 2)\<lparr>elements := []\<rparr>)\<rparr>
   \<and> fcn collaborators \<lparr>atomstruc = None, system = Some (system_of 2)\<rparr>
        [] [[s_shell], [s_shell]] [] [[s_shell], [s_shell]] ''Li 1 0 0; Li -1 0 0''
        \<lparr>ncols = 2, rows = [[1, 0], [0, 2]]\<rparr>
     = fcn collaborators
        \<lparr>atomstruc = Some [(Z 3, [0, 0, 0])], system = Some ((system_of 2)\<lparr>elements := []\<rparr>)\<rparr>
        [] [[s_shell], [s_shell]] [] [[s_shell], [s_shell]] ''Li 1 0 0; Li -1 0 0''
        \<lparr>ncols = 2, rows = [[1, 0], [0, 2]]\<rparr>"
proof -
  have h: "system_get_occ collaborators \<lparr>atomstruc = None, system = Some (system_of 2)\<rparr>
     = system_get_occ collaborators
         \<lparr>atomstruc = Some [(Z 3, [0, 0, 0])], system = Some ((system_of 2)\<lparr>elements := []\<rparr>)\<rparr>"
    by (simp add: system_get_occ_def get_occ_def system_of_def)
  show ?thesis
    using h fcn_function_of_arguments_and_system[OF h] by simp
qed

section \<open>The occupied coefficients\<close>

lemma zip_nth_upt:
  assumes "length xs = length ms"
  shows "zip xs ms = map (\<lambda>j. (xs ! j, ms ! j)) [0..<length ms]"
  using assms by (intro nth_equalityI) simp_all

lemma masked_nth:
  assumes "length xs = length ms"
  shows "map fst (filter snd (zip xs ms)) = map (\<lambda>j. xs ! j) (filter (\<lambda>j. ms ! j) [0..<length ms])"
  by (simp add: zip_nth_upt[OF assms] filter_map comp_def)

lemma length_filter_mask:
  "length (filter id ms) = length (filter (\<lambda>j. ms ! j) [0..<length ms])"
proof -
  have "filter id ms = filter id (map (\<lambda>j. ms ! j) [0..<length ms])"
    by (simp add: map_nth)
  also have "\<dots> = map (\<lambda>j. ms ! j) (filter (\<lambda>j. ms ! j) [0..<length ms])"
    by (simp add: filter_map comp_def)
  finally show ?thesis by simp
qed

lemma map_by_index: "map (\<lambda>k. f (J ! k)) [0..<length J] = map f J"
  by (intro nth_equalityI) simp_all

lemma select_columns_T:
  assumes "well_formed t" and "length ms = ncols t"
  shows "\<exists>C. select_columns t ms = Inr C
           \<and> rows (tensor_T C) = map (column t) (filter (\<lambda>j. ms ! j) [0..<ncols t])"
proof -
  define J where "J = filter (\<lambda>j. ms ! j) [0..<length ms]"
  define C where "C = \<lparr>ncols = length (filter id ms),
             rows = map (\<lambda>row. map fst (filter snd (zip row ms))) (rows t)\<rparr>"
  have sel: "select_columns t ms = Inr C"
    using assms(2) by (simp add: select_columns_def C_def)
  have len: "length (rows t ! i) = length ms" if "i < nrows t" for i
    using assms that by (simp add: well_formed_def nrows_def list_all_length)
  have nr: "nrows C = nrows t" by (simp add: C_def nrows_def)
  have nc: "ncols C = length J" by (simp add: C_def J_def length_filter_mask)
  have row: "rows C ! i = map (\<lambda>j. rows t ! i ! j) J" if "i < nrows t" for i
    using that masked_nth[OF len[OF that]] by (simp add: C_def nrows_def J_def)
  have "rows (tensor_T C) = map (\<lambda>k. map (\<lambda>i. rows C ! i ! k) [0..<nrows t]) [0..<length J]"
    by (simp add: tensor_T_def nr nc)
  also have "\<dots> = map (\<lambda>k. map (\<lambda>i. rows t ! i ! (J ! k)) [0..<nrows t]) [0..<length J]"
    by (rule map_cong[OF refl], rule map_cong[OF refl]) (simp add: row)
  also have "\<dots> = map (\<lambda>j. map (\<lambda>i. rows t ! i ! j) [0..<nrows t]) J"
    by (rule map_by_index)
  finally show ?thesis
    using sel assms(2) by (simp add: column_def J_def)
qed

text \<open>
  Claim C8.  When the solver returns a coefficient matrix with one occupation entry per
  column, \<^verbatim>\<open>_coeff_mat_scf\<close> returns a matrix whose columns are exactly the columns of the
  coefficient matrix with a strictly positive occupation entry, in order; that matrix is
  the \<open>coeffM\<close> entry of the argument dictionary \<^verbatim>\<open>fcn_dict\<close> builds; and an evaluation of
  \<open>fcn\<close> on that matrix forms its projection from that very matrix.
\<close>

theorem coeff_mat_scf_columns:
  assumes "mol self = Some m" and "rhf_kernel E m = Inr mf"
    and "well_formed (mo_coeff mf)" and "length (mo_occ mf) = ncols (mo_coeff mf)"
  shows "\<exists>C. coeff_mat_scf E self = Inr C
           \<and> rows (tensor_T C)
               = map (column (mo_coeff mf)) (filter (\<lambda>j. 0 < mo_occ mf ! j) [0..<ncols (mo_coeff mf)])
           \<and> (\<forall>ref_system d. fcn_dict E self ref_system = Inr d \<longrightarrow> coeffM d = C)
           \<and> (\<forall>G bp pk bp_ref pk_ref moldesc r.
                 fcn E G bp pk bp_ref pk_ref moldesc C = Inr r \<longrightarrow>
                 (\<exists>colap ng P. maximise_overlap (torch_inverse E) C colap ng = Inr P))"
proof -
  have m: "length (map (\<lambda>x. 0 < x) (mo_occ mf)) = ncols (mo_coeff mf)"
    using assms(4) by simp
  from select_columns_T[OF assms(3) m] obtain C where
    C: "select_columns (mo_coeff mf) (map (\<lambda>x. 0 < x) (mo_occ mf)) = Inr C"
    and T: "rows (tensor_T C)
        = map (column (mo_coeff mf))
            (filter (\<lambda>j. map (\<lambda>x. 0 < x) (mo_occ mf) ! j) [0..<ncols (mo_coeff mf)])"
    by blast
  have "filter (\<lambda>j. map (\<lambda>x. 0 < x) (mo_occ mf) ! j) [0..<ncols (mo_coeff mf)]
      = filter (\<lambda>j. 0 < mo_occ mf ! j) [0..<ncols (mo_coeff mf)]"
    by (rule filter_cong[OF refl]) (simp add: assms(4))
  with T have T': "rows (tensor_T C)
      = map (column (mo_coeff mf)) (filter (\<lambda>j. 0 < mo_occ mf ! j) [0..<ncols (mo_coeff mf)])"
    by simp
  have c: "coeff_mat_scf E self = Inr C"
    using assms(1,2) C by (simp add: coeff_mat_scf_def)
  have "coeffM d = C" if "fcn_dict E self ref_system = Inr d" for ref_system d
    using that c by (auto simp: fcn_dict_def split: sum.splits prod.splits)
  moreover note c
  moreover have "\<exists>colap ng P. maximise_overlap (torch_inverse E) C colap ng = Inr P"
    if "fcn E G bp pk bp_ref pk_ref moldesc C = Inr r"
    for G bp pk bp_ref pk_ref moldesc r
    using that by (auto simp: fcn_def split: sum.splits)
  ultimately show ?thesis using T' by blast
qed


theorem coeff_mat_scf_columns_witness:
  "mol (system_of 0) = Some 0
   \<and> rhf_kernel collaborators 0
       = Inr \<lparr>mo_coeff = \<lparr>ncols = 2, rows = [[1, 0], [0, 2]]\<rparr>, mo_occ = [2, 0], mf_get_occ = [2, 0]\<rparr>
   \<and> well_formed \<lparr>ncols = 2, rows = [[1, 0], [0, 2::real]]\<rparr>
   \<and> length [2, 0::real] = 2
   \<and> coeff_mat_scf collaborators (system_of 0) = Inr \<lparr>ncols = 1, rows = [[1], [0]]\<rparr>
   \<and> (\<exists>C. coeff_mat_scf collaborators (system_of 0) = Inr C \<and> rows (tensor_T C) = [[1, 0]])
   \<and> (\<exists>d. fcn_dict collaborators (system_of 0) (system_of 0) = Inr d
          \<and> coeffM d = \<lparr>ncols = 1, rows = [[1], [0]]\<rparr>)"
proof -
  have a: "mol (system_of 0) = Some 0" by (simp add: system_of_def)
  have b: "rhf_kernel collaborators 0
       = Inr \<lparr>mo_coeff = \<lparr>ncols = 2, rows = [[1, 0], [0, 2]]\<rparr>, mo_occ = [2, 0], mf_get_occ = [2, 0]\<rparr>"
    by (simp add: collaborators_def solver_def)
  have c: "well_formed (mo_coeff \<lparr>mo_coeff = \<lparr>ncols = 2, rows = [[1, 0], [0, 2]]\<rparr>,
      mo_occ = [2, 0], mf_get_occ = [2, 0]\<rparr>)"
    by (simp add: well_formed_def)
  have d: "length (mo_occ \<lparr>mo_coeff = \<lparr>ncols = 2, rows = [[1, 0], [0, 2]]\<rparr>,
      mo_occ = [2, 0], mf_get_occ = [2, 0]\<rparr>)
      = ncols (mo_coeff \<lparr>mo_coeff = \<lparr>ncols = 2, rows = [[1, 0], [0, 2]]\<rparr>,
      mo_occ = [2, 0], mf_get_occ = [2, 0]\<rparr>)"
    by simp
  have e: "coeff_mat_scf collaborators (system_of 0) = Inr \<lparr>ncols = 1, rows = [[1], [0]]\<rparr>"
    by (simp add: coeff_mat_scf_def a b select_columns_def)
  from coeff_mat_scf_columns[OF a b c d] obtain C where
    C: "coeff_mat_scf collaborators (system_of 0) = Inr C"
    and "rows (tensor_T C) = map (column \<lparr>ncols = 2, rows = [[1, 0], [0, 2]]\<rparr>)
        (filter (\<lambda>j. 0 < [2, 0::real] ! j) [0..<2])"
    and F: "\<forall>ref_system d. fcn_dict collaborators (system_of 0) ref_system = Inr d \<longrightarrow> coeffM d = C"
    by auto
  then have T: "\<exists>C. coeff_mat_scf collaborators (system_of 0) = Inr C \<and> rows (tensor_T C) = [[1, 0]]"
    by (simp add: upt_2 column_def nrows_def)
  have q: "dqc collaborators (system_of 0) ref = Inr ([], [[s_shell], [s_shell]])" for ref
    by (simp add: dqc_def system_of_def collaborators_def getitem_def upt_2)
  obtain d0 where d0: "fcn_dict collaborators (system_of 0) (system_of 0) = Inr d0"
    by (simp add: fcn_dict_def q e)
  with F C e have "coeffM d0 = \<lparr>ncols = 1, rows = [[1], [0]]\<rparr>" by auto
  with d0 have D: "\<exists>d. fcn_dict collaborators (system_of 0) (system_of 0) = Inr d
      \<and> coeffM d = \<lparr>ncols = 1, rows = [[1], [0]]\<rparr>"
    by blast
  from a b e T D show ?thesis by (simp add: well_formed_def)
qed

section \<open>The element array\<close>

lemma first_entries_indices:
  "first_entries atoms is =
     (if list_all (\<lambda>i. i < length atoms) is then Inr (map (\<lambda>i. fst (atoms ! i)) is)
      else Inl IndexError)"
  by (induction "is") (simp_all add: getitem_def)

lemma first_entries_upt:
  "first_entries atoms [0..<k] =
     (if k \<le> length atoms then Inr (map fst (take k atoms)) else Inl IndexError)"
proof (cases "k \<le> length atoms")
  case True
  then have "map (\<lambda>i. fst (atoms ! i)) [0..<k] = map fst (take k atoms)"
    by (intro nth_equalityI) simp_all
  with True show ?thesis by (simp add: first_entries_indices list_all_iff)
next
  case False
  then have "\<not> list_all (\<lambda>i. i < length atoms) [0..<k]"
    by (auto simp: list_all_iff)
  with False show ?thesis by (simp add: first_entries_indices)
qed

lemma replace_symbols_length:
  "replace_symbols d xs = Inr ys \<Longrightarrow> length ys = length xs"
  by (induction d xs arbitrary: ys rule: replace_symbols.induct)
    (auto split: option.splits sum.splits)

lemma replace_symbols_known:
  "list_all (known_element d) xs \<Longrightarrow> replace_symbols d xs = Inr (map (converted d) xs)"
  by (induction d xs rule: replace_symbols.induct)
    (auto simp: known_element_def converted_def split: option.splits sum.splits)

lemma replace_symbols_converted:
  "replace_symbols d xs = Inr ys \<Longrightarrow> ys = map (converted d) xs"
  by (induction d xs arbitrary: ys rule: replace_symbols.induct)
    (auto simp: converted_def split: option.splits sum.splits)

lemma get_element_arr_result:
  assumes "atomstruc G = Some g" and "get_element_arr G self = Inr arr"
  shows "length g \<le> length (atomstuc self)
       \<and> arr = map (converted (element_dict self)) (map fst (take (length g) (atomstuc self)))"
proof -
  from assms have le: "length g \<le> length (atomstuc self)"
    by (auto simp: get_element_arr_def first_entries_upt split: if_splits)
  with assms have "replace_symbols (element_dict self) (map fst (take (length g) (atomstuc self)))
      = Inr arr"
    by (simp add: get_element_arr_def first_entries_upt)
  from replace_symbols_converted[OF this] le show ?thesis by simp
qed

lemma dft_system_init_cases:
  "dft_system_init E G b atoms scf =
     (case get_element_arr G
             \<lparr>basis = b, atomstuc = atoms,
              atomstuc_dqc = arr_int_conv E \<lparr>basis = b, atomstuc = atoms, atomstuc_dqc = [],
                element_dict = Map.empty, elements = [], mol = None\<rparr>,
              element_dict = generateElementdict E, elements = [], mol = None\<rparr> of
        Inl e \<Rightarrow> Inl e
      | Inr els \<Rightarrow>
          (if scf then
             (case create_scf_Mol E
                     \<lparr>basis = b, atomstuc = atoms,
                      atomstuc_dqc = arr_int_conv E \<lparr>basis = b, atomstuc = atoms, atomstuc_dqc = [],
                        element_dict = Map.empty, elements = [], mol = None\<rparr>,
                      element_dict = generateElementdict E, elements = els, mol = None\<rparr> of
                Inl e \<Rightarrow> Inl e
              | Inr m \<Rightarrow>
                  Inr \<lparr>basis = b, atomstuc = atoms,
                       atomstuc_dqc = arr_int_conv E \<lparr>basis = b, atomstuc = atoms, atomstuc_dqc = [],
                         element_dict = Map.empty, elements = [], mol = None\<rparr>,
                       element_dict = generateElementdict E, elements = els, mol = Some m\<rparr>)
           else
             Inr \<lparr>basis = b, atomstuc = atoms,
                  atomstuc_dqc = arr_int_conv E \<lparr>basis = b, atomstuc = atoms, atomstuc_dqc = [],
                    element_dict = Map.empty, elements = [], mol = None\<rparr>,
                  element_dict = generateElementdict E, elements = els, mol = None\<rparr>))"
  by (simp add: dft_system_init_def Let_def split: sum.splits)

text \<open>
  Claim C10.  \<^verbatim>\<open>_get_element_arr\<close> iterates over the length of the global \<open>atomstruc\<close>.  With
  a shorter atom list of its own it fails with an index error, and so does the construction
  of a \<open>dft_system\<close> from a shorter atom list.  With a longer one the atoms beyond that length
  have no influence: the result is that for the truncated atom list, an array that is
  returned has the length of the global list, and it is returned whenever the leading atoms
  are numbers or known symbols; the element array of a constructed \<open>dft_system\<close> is the
  conversion of the leading atoms, as many as the global list has.
\<close>

theorem get_element_arr_global_length:
  assumes "atomstruc G = Some g"
  shows "(length (atomstuc self) < length g \<longrightarrow> get_element_arr G self = Inl IndexError)
       \<and> (length g < length (atomstuc self) \<longrightarrow>
            get_element_arr G self
              = get_element_arr G (self\<lparr>atomstuc := take (length g) (atomstuc self)\<rparr>)
          \<and> (\<forall>arr. get_element_arr G self = Inr arr \<longrightarrow> length arr = length g)
          \<and> (list_all (known_element (element_dict self)) (map fst (take (length g) (atomstuc self)))
               \<longrightarrow> get_element_arr G self
                    = Inr (map (converted (element_dict self))
                            (map fst (take (length g) (atomstuc self))))))
       \<and> (length atoms < length g \<longrightarrow> dft_system_init E G b atoms scf = Inl IndexError)
       \<and> (\<forall>sys. dft_system_init E G b atoms scf = Inr sys \<longrightarrow>
            length (elements sys) = length g
          \<and> elements sys
              = map (converted (generateElementdict E)) (map fst (take (length g) atoms)))"
proof (intro conjI impI allI)
  assume "length (atomstuc self) < length g"
  then show "get_element_arr G self = Inl IndexError"
    using assms by (simp add: get_element_arr_def first_entries_upt)
next
  assume "length g < length (atomstuc self)"
  then show "get_element_arr G self
      = get_element_arr G (self\<lparr>atomstuc := take (length g) (atomstuc self)\<rparr>)"
    using assms by (simp add: get_element_arr_def first_entries_upt)
next
  fix arr
  assume "length g < length (atomstuc self)" and "get_element_arr G self = Inr arr"
  then show "length arr = length g"
    using get_element_arr_result[OF assms, of self arr] by simp
next
  assume "length g < length (atomstuc self)"
    and "list_all (known_element (element_dict self)) (map fst (take (length g) (atomstuc self)))"
  then show "get_element_arr G self
      = Inr (map (converted (element_dict self)) (map fst (take (length g) (atomstuc self))))"
    using assms by (simp add: get_element_arr_def first_entries_upt replace_symbols_known)
next
  assume "length atoms < length g"
  then show "dft_system_init E G b atoms scf = Inl IndexError"
    using assms by (simp add: dft_system_init_cases get_element_arr_def first_entries_upt)
next
  fix sys
  assume ok: "dft_system_init E G b atoms scf = Inr sys"
  let ?self = "\<lparr>basis = b, atomstuc = atoms,
      atomstuc_dqc = arr_int_conv E \<lparr>basis = b, atomstuc = atoms, atomstuc_dqc = [],
        element_dict = Map.empty, elements = [], mol = None\<rparr>,
      element_dict = generateElementdict E, elements = [], mol = None\<rparr>"
  from ok obtain els where els: "get_element_arr G ?self = Inr els" and "elements sys = els"
    by (auto simp: dft_system_init_cases split: sum.splits if_splits)
  with get_element_arr_result[OF assms els]
  show "length (elements sys) = length g"
    and "elements sys = map (converted (generateElementdict E)) (map fst (take (length g) atoms))"
    by simp_all
qed

theorem get_element_arr_global_length_witness:
  "atomstruc \<lparr>atomstruc = Some [(Sym ''Li'', [1, 0, 0]), (Sym ''Li'', [- 1, 0, 0]), (Sym ''H'', [0, 0, 0])],
      system = None :: nat dft_system option\<rparr>
     = Some [(Sym ''Li'', [1, 0, 0]), (Sym ''Li'', [- 1, 0, 0]), (Sym ''H'', [0, 0, 0])]
   \<and> length (atomstuc (system_of 0)) < length [(Sym ''Li'', [1, 0, 0 :: real]), (Sym ''Li'', [- 1, 0, 0]), (Sym ''H'', [0, 0, 0])]
   \<and> get_element_arr
        \<lparr>atomstruc = Some [(Sym ''Li'', [1, 0, 0]), (Sym ''Li'', [- 1, 0, 0]), (Sym ''H'', [0, 0, 0])],
         system = None\<rparr> (system_of 0) = Inl IndexError
   \<and> dft_system_init collaborators
        \<lparr>atomstruc = Some [(Sym ''Li'', [1, 0, 0]), (Sym ''Li'', [- 1, 0, 0]), (Sym ''H'', [0, 0, 0])],
         system = None\<rparr> (BasisName ''3-21G'') [(Z 3, [1, 0, 0]), (Z 1, [- 1, 0, 0])] False
       = Inl IndexError
   \<and> atomstruc \<lparr>atomstruc = Some [(Sym ''Li'', [0, 0, 0])], system = None :: nat dft_system option\<rparr>
     = Some [(Sym ''Li'', [0, 0, 0])]
   \<and> length [(Sym ''Li'', [0, 0, 0 :: real])] < length (atomstuc (system_of 0))
   \<and> list_all (known_element (element_dict (system_of 0)))
        (map fst (take (length [(Sym ''Li'', [0, 0, 0 :: real])]) (atomstuc (system_of 0))))
   \<and> get_element_arr \<lparr>atomstruc = Some [(Sym ''Li'', [0, 0, 0])], system = None\<rparr> (system_of 0)
     = Inr [Z 3]
   \<and> (\<exists>sys. dft_system_init collaborators
        \<lparr>atomstruc = Some [(Sym ''Li'', [0, 0, 0])], system = None\<rparr>
        (BasisName ''3-21G'') [(Z 3, [1, 0, 0]), (Z 1, [- 1, 0, 0])] False = Inr sys
        \<and> elements sys = [Z 3])"
proof -
  let ?G3 = "\<lparr>atomstruc = Some [(Sym ''Li'', [1, 0, 0]), (Sym ''Li'', [- 1, 0, 0]), (Sym ''H'', [0, 0, 0])],
      system = None :: nat dft_system option\<rparr>"
  let ?G1 = "\<lparr>atomstruc = Some [(Sym ''Li'', [0, 0, 0])], system = None :: nat dft_system option\<rparr>"
  let ?atoms = "[(Z 3, [1, 0, 0 :: real]), (Z 1, [- 1, 0, 0])]"
  have a3: "atomstruc ?G3
      = Some [(Sym ''Li'', [1, 0, 0]), (Sym ''Li'', [- 1, 0, 0]), (Sym ''H'', [0, 0, 0])]"
    by simp
  have a1: "atomstruc ?G1 = Some [(Sym ''Li'', [0, 0, 0])]" by simp
  have l3: "length (atomstuc (system_of 0))
      < length [(Sym ''Li'', [1, 0, 0 :: real]), (Sym ''Li'', [- 1, 0, 0]), (Sym ''H'', [0, 0, 0])]"
    by (simp add: system_of_def)
  have l1: "length [(Sym ''Li'', [0, 0, 0 :: real])] < length (atomstuc (system_of 0))"
    by (simp add: system_of_def)
  have k: "list_all (known_element (element_dict (system_of 0)))
        (map fst (take (length [(Sym ''Li'', [0, 0, 0 :: real])]) (atomstuc (system_of 0))))"
    by (simp add: system_of_def known_element_def)
  have c: "map (converted (element_dict (system_of 0)))
        (map fst (take (length [(Sym ''Li'', [0, 0, 0 :: real])]) (atomstuc (system_of 0)))) = [Z 3]"
    by (simp add: system_of_def converted_def)
  note T3 = get_element_arr_global_length[OF a3, of "system_of 0" ?atoms collaborators
      "BasisName ''3-21G''" False]
  note T1 = get_element_arr_global_length[OF a1, of "system_of 0" ?atoms collaborators
      "BasisName ''3-21G''" False]
  have r3: "get_element_arr ?G3 (system_of 0) = Inl IndexError"
    using T3 l3 by blast
  have "length ?atoms
      < length [(Sym ''Li'', [1, 0, 0 :: real]), (Sym ''Li'', [- 1, 0, 0]), (Sym ''H'', [0, 0, 0])]"
    by simp
  with T3 have i3: "dft_system_init collaborators ?G3 (BasisName ''3-21G'') ?atoms False
      = Inl IndexError"
    by blast
  have "get_element_arr ?G1 (system_of 0)
      = Inr (map (converted (element_dict (system_of 0)))
          (map fst (take (length [(Sym ''Li'', [0, 0, 0 :: real])]) (atomstuc (system_of 0)))))"
    using T1 l1 k by blast
  then have r1: "get_element_arr ?G1 (system_of 0) = Inr [Z 3]"
    by (simp only: c)
  obtain sys where s: "dft_system_init collaborators ?G1 (BasisName ''3-21G'') ?atoms False = Inr sys"
    by (simp add: dft_system_init_cases get_element_arr_def getitem_def)
  with T1 have "elements sys
      = map (converted (generateElementdict collaborators))
          (map fst (take (length [(Sym ''Li'', [0, 0, 0 :: real])]) ?atoms))"
    by blast
  then have "elements sys = [Z 3]" by (simp add: converted_def)
  with s have i1: "\<exists>sys. dft_system_init collaborators ?G1 (BasisName ''3-21G'') ?atoms False = Inr sys
      \<and> elements sys = [Z 3]"
    by blast
  from a3 l3 r3 i3 a1 l1 k r1 i1 show ?thesis by (intro conjI)
qed

end
